theory Spec2Isabelle
  imports Complex_Main "HOL-Library.Sublist" "HOL-Library.Multiset" "HOL-Library.Product_Lexorder"
begin

section \<open>Python values and errors\<close>

text \<open>
  The server is written in Python. Exceptions are values of \<open>py_error\<close>, and a function
  that may raise returns \<open>py_error + 'a\<close> with \<open>Inl\<close> for the exception. Python \<open>str\<close>
  is \<open>string\<close>; only ASCII letters change case.
\<close>

datatype py_error = ValueError | ZeroDivisionError | IndexError | KeyError | TypeError

text \<open>
  A list comprehension \<^verbatim>\<open>[f(x) for x in xs]\<close> whose body may raise: the first exception
  leaves the comprehension.
\<close>

fun comprehension :: "('a \<Rightarrow> py_error + 'b) \<Rightarrow> 'a list \<Rightarrow> py_error + 'b list" where
  "comprehension f [] = Inr []"
| "comprehension f (x # xs) =
     (case f x of
        Inl e \<Rightarrow> Inl e
      | Inr y \<Rightarrow> (case comprehension f xs of Inl e \<Rightarrow> Inl e | Inr ys \<Rightarrow> Inr (y # ys)))"

text \<open>
  The slice \<^verbatim>\<open>xs[:k]\<close>: the first \<open>k\<close> elements when \<open>k\<close> is not negative, and all but
  the last \<open>-k\<close> elements when it is.
\<close>

definition slice_to :: "int \<Rightarrow> 'a list \<Rightarrow> 'a list" where
  "slice_to k xs = (if 0 \<le> k then take (nat k) xs else take (length xs - nat (- k)) xs)"

section \<open>Floats\<close>

text \<open>
  A Python \<^verbatim>\<open>float\<close> is an IEEE-754 double: a real number, an infinity, or not a number.
  The two zeros are one value here; they compare equal and no operation of the code tells
  them apart.
\<close>

datatype pyfloat = Finite real | PosInf | NegInf | NaN

text \<open>\<^verbatim>\<open>x < y\<close> and \<^verbatim>\<open>x == y\<close> on floats: every comparison with NaN is false.\<close>

fun float_less :: "pyfloat \<Rightarrow> pyfloat \<Rightarrow> bool" where
  "float_less NaN y = False"
| "float_less x NaN = False"
| "float_less x NegInf = False"
| "float_less NegInf y = True"
| "float_less PosInf y = False"
| "float_less x PosInf = True"
| "float_less (Finite a) (Finite b) = (a < b)"

fun float_eq :: "pyfloat \<Rightarrow> pyfloat \<Rightarrow> bool" where
  "float_eq NaN y = False"
| "float_eq x NaN = False"
| "float_eq (Finite a) (Finite b) = (a = b)"
| "float_eq PosInf PosInf = True"
| "float_eq NegInf NegInf = True"
| "float_eq x y = False"

definition float_le :: "pyfloat \<Rightarrow> pyfloat \<Rightarrow> bool" where
  "float_le x y \<longleftrightarrow> float_less x y \<or> float_eq x y"

text \<open>
  The arithmetic the interpreter and the machine provide: \<^verbatim>\<open>sum\<close> of a sequence of floats
  (additions from the left in older interpreters, a compensated summation in newer ones),
  \<^verbatim>\<open>*\<close>, the square root and the quotient of doubles, each with its rounding. It is not code
  of the program and is a parameter of the model: what is proved holds for every
  arithmetic, or for the arithmetics the statement names.
\<close>

record float_ops =
  f_sum :: "pyfloat list \<Rightarrow> pyfloat"
  f_mul :: "pyfloat \<Rightarrow> pyfloat \<Rightarrow> pyfloat"
  f_sqrt :: "pyfloat \<Rightarrow> pyfloat"
  f_div :: "pyfloat \<Rightarrow> pyfloat \<Rightarrow> pyfloat"

text \<open>\<^verbatim>\<open>math.sqrt(x)\<close> raises \<^verbatim>\<open>ValueError\<close> for \<open>x\<close> below zero.\<close>

definition math_sqrt :: "float_ops \<Rightarrow> pyfloat \<Rightarrow> py_error + pyfloat" where
  "math_sqrt ops x = (if float_less x (Finite 0) then Inl ValueError else Inr (f_sqrt ops x))"

text \<open>\<^verbatim>\<open>a / b\<close> on floats raises \<^verbatim>\<open>ZeroDivisionError\<close> when \<open>b\<close> equals zero.\<close>

definition py_truediv :: "float_ops \<Rightarrow> pyfloat \<Rightarrow> pyfloat \<Rightarrow> py_error + pyfloat" where
  "py_truediv ops a b = (if float_eq b (Finite 0) then Inl ZeroDivisionError else Inr (f_div ops a b))"

text \<open>
  \<^verbatim>\<open>xs.sort(key=key, reverse=True)\<close> with float keys. Python documents the sort as stable,
  also with \<^verbatim>\<open>reverse=True\<close>: for keys that are numbers the result is in non-increasing
  key order and elements with equal keys keep their relative order, which is the stable
  ascending sort by \<open>descending_key\<close>. For keys that include NaN Python does not say what
  the result is; the model puts them last, and nothing is proved about that case.
\<close>

definition descending_key :: "pyfloat \<Rightarrow> int \<times> real" where
  "descending_key x =
     (case x of PosInf \<Rightarrow> (- 1, 0) | Finite r \<Rightarrow> (0, - r) | NegInf \<Rightarrow> (1, 0) | NaN \<Rightarrow> (2, 0))"

definition sort_reverse :: "('a \<Rightarrow> pyfloat) \<Rightarrow> 'a list \<Rightarrow> 'a list" where
  "sort_reverse key xs = sort_key (\<lambda>x. descending_key (key x)) xs"

subsection \<open>An arithmetic without rounding\<close>

text \<open>
  An arithmetic to evaluate examples with: every operation gives the exact result, an
  exact result of magnitude \<open>2\<^sup>1\<^sup>0\<^sup>2\<^sup>4\<close> or more overflows to an infinity, and infinities
  and NaN follow the IEEE rules. Where every exact result is a double or overflows in this
  way, it computes what the doubles of the machine compute; the examples are of that kind.
  A finite number divided by zero is never asked for, as \<^verbatim>\<open>/\<close> raises before.
\<close>

definition in_range :: "real \<Rightarrow> pyfloat" where
  "in_range r = (if 2 ^ 1024 \<le> r then PosInf else if r \<le> - (2 ^ 1024) then NegInf else Finite r)"

definition signed_inf :: "bool \<Rightarrow> pyfloat" where
  "signed_inf positive = (if positive then PosInf else NegInf)"

fun unrounded_add :: "pyfloat \<Rightarrow> pyfloat \<Rightarrow> pyfloat" where
  "unrounded_add NaN y = NaN"
| "unrounded_add x NaN = NaN"
| "unrounded_add PosInf NegInf = NaN"
| "unrounded_add NegInf PosInf = NaN"
| "unrounded_add PosInf y = PosInf"
| "unrounded_add x PosInf = PosInf"
| "unrounded_add NegInf y = NegInf"
| "unrounded_add x NegInf = NegInf"
| "unrounded_add (Finite a) (Finite b) = in_range (a + b)"

fun inf_mul :: "bool \<Rightarrow> pyfloat \<Rightarrow> pyfloat" where
  "inf_mul positive NaN = NaN"
| "inf_mul positive PosInf = signed_inf positive"
| "inf_mul positive NegInf = signed_inf (\<not> positive)"
| "inf_mul positive (Finite b) = (if b = 0 then NaN else signed_inf (positive = (0 < b)))"

fun unrounded_mul :: "pyfloat \<Rightarrow> pyfloat \<Rightarrow> pyfloat" where
  "unrounded_mul NaN y = NaN"
| "unrounded_mul x NaN = NaN"
| "unrounded_mul PosInf y = inf_mul True y"
| "unrounded_mul NegInf y = inf_mul False y"
| "unrounded_mul x PosInf = inf_mul True x"
| "unrounded_mul x NegInf = inf_mul False x"
| "unrounded_mul (Finite a) (Finite b) = in_range (a * b)"

fun unrounded_sqrt :: "pyfloat \<Rightarrow> pyfloat" where
  "unrounded_sqrt NaN = NaN"
| "unrounded_sqrt PosInf = PosInf"
| "unrounded_sqrt NegInf = NaN"
| "unrounded_sqrt (Finite a) = (if a < 0 then NaN else Finite (sqrt a))"

fun unrounded_div :: "pyfloat \<Rightarrow> pyfloat \<Rightarrow> pyfloat" where
  "unrounded_div NaN y = NaN"
| "unrounded_div x NaN = NaN"
| "unrounded_div (Finite a) (Finite b) =
     (if b = 0 then (if a = 0 then NaN else signed_inf (0 < a)) else in_range (a / b))"
| "unrounded_div (Finite a) y = Finite 0"
| "unrounded_div PosInf (Finite b) = signed_inf (0 \<le> b)"
| "unrounded_div NegInf (Finite b) = signed_inf (b < 0)"
| "unrounded_div x y = NaN"

definition unrounded_sum :: "pyfloat list \<Rightarrow> pyfloat" where
  "unrounded_sum xs = foldl unrounded_add (Finite 0) xs"

definition unrounded_ops :: float_ops where
  "unrounded_ops =
     \<lparr>f_sum = unrounded_sum, f_mul = unrounded_mul, f_sqrt = unrounded_sqrt, f_div = unrounded_div\<rparr>"

section \<open>The retrieval store (rag.py)\<close>

type_synonym metadata = "(string \<times> string) list"

text \<open>Class \<^verbatim>\<open>Chunk\<close>: a stored documentation fragment with its embedding.\<close>

record chunk =
  chunk_id :: string
  content :: string
  edition :: "string option"
  embedding :: "pyfloat list"
  metadata :: metadata

text \<open>
  The lists \<^verbatim>\<open>retrieve\<close> works on are objects in a heap, since \<^verbatim>\<open>sort\<close> changes a list in
  place and a parameter is another name for the list of the caller: the lists of chunks
  the store holds, in load order, and the lists of scored chunks \<^verbatim>\<open>_top_matches\<close> makes. A
  reference is a position in the heap, and a new object is put at its end. No code of the
  store assigns to an attribute of a chunk, and chunks are held by value.
\<close>

datatype object = Chunk_list "chunk list" | Scored_list "(chunk \<times> pyfloat) list"

type_synonym heap = "object list"

text \<open>
  Class \<^verbatim>\<open>RAGStore\<close>: the references to its two collections. No method other than the
  constructor assigns to these attributes.
\<close>

record rag_store =
  full_index :: nat
  versions_index :: nat

text \<open>
  The list of chunks a reference denotes. The constructor of the store makes both lists,
  so a reference of the store that does not denote a list of chunks does not arise in the
  program; the model answers with \<^verbatim>\<open>TypeError\<close> there.
\<close>

definition chunks_at :: "heap \<Rightarrow> nat \<Rightarrow> py_error + chunk list" where
  "chunks_at h r =
     (if r < length h
      then (case h ! r of Chunk_list cs \<Rightarrow> Inr cs | Scored_list other \<Rightarrow> Inl TypeError)
      else Inl TypeError)"

text \<open>The values stored in a returned fragment dictionary.\<close>

datatype pyval = PStr string | PNone | PDict metadata | PVector "pyfloat list"

text \<open>A Python \<^verbatim>\<open>dict\<close> with string keys, in insertion order.\<close>

type_synonym pydict = "(string \<times> pyval) list"

text \<open>\<^verbatim>\<open>RAGStore._cosine_similarity\<close>\<close>

definition cosine_similarity :: "float_ops \<Rightarrow> pyfloat list \<Rightarrow> pyfloat list \<Rightarrow> py_error + pyfloat" where
  "cosine_similarity ops vec1 vec2 =
     (if length vec1 \<noteq> length vec2 then Inr (Finite 0)
      else
        let dot_product = f_sum ops (map (\<lambda>(a, b). f_mul ops a b) (zip vec1 vec2)) in
        case math_sqrt ops (f_sum ops (map (\<lambda>a. f_mul ops a a) vec1)) of
          Inl e \<Rightarrow> Inl e
        | Inr magnitude1 \<Rightarrow>
            (case math_sqrt ops (f_sum ops (map (\<lambda>a. f_mul ops a a) vec2)) of
               Inl e \<Rightarrow> Inl e
             | Inr magnitude2 \<Rightarrow>
                 if float_eq magnitude1 (Finite 0) \<or> float_eq magnitude2 (Finite 0)
                 then Inr (Finite 0)
                 else py_truediv ops dot_product (f_mul ops magnitude1 magnitude2)))"

text \<open>
  \<^verbatim>\<open>RAGStore._top_matches\<close>, from the heap \<open>h\<close> to the heap after the call and the outcome.
  \<open>chunks\<close> is the reference to the list that is searched. The comprehension makes the new
  list \<^verbatim>\<open>scored\<close>, \<^verbatim>\<open>sort\<close> changes that list in place, and the chunks of its first
  \<open>top_k\<close> entries are returned in a new list, which nothing else refers to.
\<close>

definition top_matches ::
  "float_ops \<Rightarrow> heap \<Rightarrow> nat \<Rightarrow> pyfloat list \<Rightarrow> int \<Rightarrow> heap \<times> (py_error + chunk list)" where
  "top_matches ops h chunks query_embedding top_k =
     (case chunks_at h chunks of
        Inl e \<Rightarrow> (h, Inl e)
      | Inr cs \<Rightarrow>
          (case comprehension
                  (\<lambda>c. case cosine_similarity ops query_embedding (embedding c) of
                          Inl e \<Rightarrow> Inl e
                        | Inr s \<Rightarrow> Inr (c, s))
                  cs of
             Inl e \<Rightarrow> (h, Inl e)
           | Inr scored_v \<Rightarrow>
               (let scored = length h;
                    h1 = h @ [Scored_list scored_v];
                    sorted_v = sort_reverse snd scored_v;
                    h2 = h1[scored := Scored_list sorted_v]
                in (h2, Inr (map fst (slice_to top_k sorted_v))))))"

text \<open>\<^verbatim>\<open>RAGStore._chunk_to_dict\<close>\<close>

definition chunk_to_dict :: "chunk \<Rightarrow> pydict" where
  "chunk_to_dict c =
     [(''id'', PStr (chunk_id c)),
      (''content'', PStr (content c)),
      (''edition'', (case edition c of None \<Rightarrow> PNone | Some e \<Rightarrow> PStr e)),
      (''metadata'', PDict (metadata c))]"

text \<open>The dictionary \<^verbatim>\<open>{"full": [...], "versions": [...]}\<close> returned by \<^verbatim>\<open>retrieve\<close>.\<close>

record retrieval_result =
  full :: "pydict list"
  versions :: "pydict list"

text \<open>
  \<^verbatim>\<open>RAGStore.retrieve\<close>, from the heap \<open>h\<close> to the heap after the call and the outcome.
  \<open>VERSION_CHECK_TOP_K\<close> is read from the environment by config.py and is a parameter
  here; \<open>edition\<close> is accepted and unused, as in the source.
\<close>

definition retrieve ::
  "float_ops \<Rightarrow> int \<Rightarrow> heap \<Rightarrow> rag_store \<Rightarrow> pyfloat list \<Rightarrow> string \<Rightarrow> int
     \<Rightarrow> heap \<times> (py_error + retrieval_result)" where
  "retrieve ops VERSION_CHECK_TOP_K h self query_embedding edition_arg top_k =
     (case top_matches ops h (full_index self) query_embedding top_k of
        (h1, Inl e) \<Rightarrow> (h1, Inl e)
      | (h1, Inr full_chunks) \<Rightarrow>
          (case top_matches ops h1 (versions_index self) query_embedding VERSION_CHECK_TOP_K of
             (h2, Inl e) \<Rightarrow> (h2, Inl e)
           | (h2, Inr version_chunks) \<Rightarrow>
               (h2, Inr \<lparr>full = map chunk_to_dict full_chunks,
                         versions = map chunk_to_dict version_chunks\<rparr>)))"

text \<open>
  The score \<^verbatim>\<open>_top_matches\<close> gives a chunk: the value \<^verbatim>\<open>_cosine_similarity\<close> returns for
  the query and the chunk's embedding. The score is a number when the computation returns
  and its value is not NaN.
\<close>

definition similarity :: "float_ops \<Rightarrow> pyfloat list \<Rightarrow> chunk \<Rightarrow> pyfloat" where
  "similarity ops query_embedding c =
     (case cosine_similarity ops query_embedding (embedding c) of Inr s \<Rightarrow> s | Inl e \<Rightarrow> NaN)"

definition score_is_number :: "float_ops \<Rightarrow> pyfloat list \<Rightarrow> chunk \<Rightarrow> bool" where
  "score_is_number ops query_embedding c =
     (case cosine_similarity ops query_embedding (embedding c) of
        Inr s \<Rightarrow> s \<noteq> NaN
      | Inl e \<Rightarrow> False)"

text \<open>
  What it means for \<open>res\<close> to be the ranking of at most \<open>k\<close> chunks of the collection
  \<open>idx\<close> under the score \<open>s\<close>: at most \<open>k\<close> chunks; scores never increase along the
  list; the returned chunks of any one score are the first stored chunks of that score, in
  load order; and no chunk left out scores higher than a returned one. Scores are compared
  as Python compares floats.
\<close>

definition ranked :: "(chunk \<Rightarrow> pyfloat) \<Rightarrow> int \<Rightarrow> chunk list \<Rightarrow> chunk list \<Rightarrow> bool" where
  "ranked s k idx res \<longleftrightarrow>
     int (length res) \<le> k
     \<and> sorted_wrt (\<lambda>a b. float_le (s b) (s a)) res
     \<and> (\<forall>c\<in>set idx. prefix (filter (\<lambda>d. float_eq (s d) (s c)) res)
                             (filter (\<lambda>d. float_eq (s d) (s c)) idx))
     \<and> mset res \<subseteq># mset idx
     \<and> (\<forall>a\<in>set res. \<forall>b\<in>#(mset idx - mset res). float_le (s b) (s a))"




section \<open>Strings\<close>

text \<open>\<^verbatim>\<open>needle in haystack\<close> on strings: \<open>needle\<close> occurs as a contiguous substring.\<close>

fun str_contains :: "string \<Rightarrow> string \<Rightarrow> bool" where
  "str_contains needle [] = (needle = [])"
| "str_contains needle (c # cs) = (prefix needle (c # cs) \<or> str_contains needle cs)"

text \<open>\<^verbatim>\<open>s.lower()\<close>, on the ASCII letters.\<close>

definition lower_char :: "char \<Rightarrow> char" where
  "lower_char c =
     (case map_of (zip ''ABCDEFGHIJKLMNOPQRSTUVWXYZ'' ''abcdefghijklmnopqrstuvwxyz'') c of
        None \<Rightarrow> c
      | Some d \<Rightarrow> d)"

definition lower :: "string \<Rightarrow> string" where
  "lower s = map lower_char s"

text \<open>\<^verbatim>\<open>any(word in text for word in words)\<close>\<close>

definition any_in :: "string list \<Rightarrow> string \<Rightarrow> bool" where
  "any_in words txt = list_ex (\<lambda>word. str_contains word txt) words"

text \<open>\<^verbatim>\<open>str(n)\<close> for an integer, as an f-string prints it.\<close>

definition digit_char :: "nat \<Rightarrow> char" where
  "digit_char d = ''0123456789'' ! d"

fun str_nat :: "nat \<Rightarrow> string" where
  "str_nat n = (if n < 10 then [digit_char n] else str_nat (n div 10) @ [digit_char (n mod 10)])"

declare str_nat.simps [simp del]

definition str_int :: "int \<Rightarrow> string" where
  "str_int i = (if i < 0 then CHR ''-'' # str_nat (nat (- i)) else str_nat (nat i))"

definition newline :: string where
  "newline = [CHR 0x0A]"

text \<open>The warning sign U+26A0 U+FE0F that prefixes warnings, in UTF-8.\<close>

definition warning_sign :: string where
  "warning_sign = [CHR 0xE2, CHR 0x9A, CHR 0xA0, CHR 0xEF, CHR 0xB8, CHR 0x8F]"

text \<open>The truth value of an \<^verbatim>\<open>Optional[str]\<close>: \<^verbatim>\<open>None\<close> and the empty string are false.\<close>

definition truthy :: "string option \<Rightarrow> bool" where
  "truthy s = (case s of None \<Rightarrow> False | Some t \<Rightarrow> t \<noteq> [])"

text \<open>\<^verbatim>\<open>s or ""\<close>\<close>

definition or_empty :: "string option \<Rightarrow> string" where
  "or_empty s = (case s of None \<Rightarrow> [] | Some t \<Rightarrow> t)"

text \<open>How an f-string prints an \<^verbatim>\<open>Optional[str]\<close>.\<close>

definition fmt :: "string option \<Rightarrow> string" where
  "fmt s = (case s of None \<Rightarrow> ''None'' | Some t \<Rightarrow> t)"

text \<open>
  \<^verbatim>\<open>xs[i]\<close>: a negative index counts from the end, and an index out of range raises
  \<^verbatim>\<open>IndexError\<close>. \<open>position\<close> is the place in the list that \<^verbatim>\<open>xs[i]\<close> reads and writes.
\<close>

definition position :: "'a list \<Rightarrow> int \<Rightarrow> py_error + nat" where
  "position xs i =
     (if 0 \<le> i \<and> i < int (length xs) then Inr (nat i)
      else if i < 0 \<and> - int (length xs) \<le> i then Inr (nat (int (length xs) + i))
      else Inl IndexError)"

definition getitem :: "'a list \<Rightarrow> int \<Rightarrow> py_error + 'a" where
  "getitem xs i = (case position xs i of Inl e \<Rightarrow> Inl e | Inr p \<Rightarrow> Inr (xs ! p))"

section \<open>The session state (state.py)\<close>

datatype intent = ableton_question | other

datatype mode = simple | step_by_step

text \<open>
  The values of \<^verbatim>\<open>action_required\<close>, the strings \<^verbatim>\<open>"wait_version_choice"\<close>,
  \<^verbatim>\<open>"wait_step_choice"\<close>, \<^verbatim>\<open>"wait_user_action"\<close> and \<^verbatim>\<open>"wait_task_completion_choice"\<close>.
\<close>

datatype action = Wait_version_choice | Wait_step_choice | Wait_user_action | Wait_task_completion_choice

record coords =
  coord_x :: int
  coord_y :: int
  coord_width :: int
  coord_height :: int

text \<open>
  A step dictionary \<^verbatim>\<open>{"text": str, "requires_click": bool, "button_coords": dict?}\<close>.
  \<open>None\<close> in \<open>step_text\<close> and \<open>requires_click\<close> is a missing key; \<open>None\<close> in
  \<open>button_coords\<close> is a missing key or the value \<^verbatim>\<open>None\<close>, which the code does not tell apart.
\<close>

record step =
  step_text :: "string option"
  requires_click :: "bool option"
  button_coords :: "coords option"

record conversation_entry =
  role :: string
  entry_text :: string
  entry_screenshot_url :: "string option"

text \<open>\<^verbatim>\<open>AgentState\<close>, a dictionary that always holds all of its keys.\<close>

record AgentState =
  session_id :: string
  user_query :: string
  ableton_edition :: string
  conversation_history :: "conversation_entry list"
  screenshot_url :: "string option"
  intent :: "intent option"
  allowed :: "bool option"
  version_explanation :: "string option"
  selected_chunks :: "pydict list"
  full_answer :: "string option"
  steps :: "step list"
  mode :: mode
  current_step_index :: int
  user_choice :: "string option"
  action_required :: "action option"
  response_text :: "string option"

section \<open>External capabilities\<close>

text \<open>
  The chat and vision models, the embedding service and the file system are outside the
  program. A handler that calls a model takes the outcome of the call as an argument:
  \<open>Raised msg\<close> when the call, or reading its answer as JSON, raised an exception whose
  text is \<open>msg\<close>, and \<open>Returned j\<close> with the parsed answer otherwise. In a parsed answer
  \<open>None\<close> is a missing key; values are of the type the prompt asks for.
\<close>

datatype 'a reply = Raised string | Returned 'a

record version_json =
  json_allowed :: "bool option"
  json_explanation :: "string option"

record answer_json =
  json_answer_explanation :: "string option"
  json_steps :: "step list option"

record button_json =
  json_found :: "bool option"
  json_x :: "int option"
  json_y :: "int option"
  json_width :: "int option"
  json_height :: "int option"

record validate_json =
  json_valid :: "bool option"
  json_valid_explanation :: "string option"

datatype language = ru | en

text \<open>
  What the handlers read from their surroundings: whether \<^verbatim>\<open>client\<close> exists (an API key is
  configured), which files exist, \<^verbatim>\<open>create_embedding\<close>, the arithmetic of floats, the global
  \<^verbatim>\<open>rag_store\<close> and the heap its lists are in, the configured \<open>VERSION_CHECK_TOP_K\<close>, and
  \<^verbatim>\<open>detect_language\<close> (a ratio of Cyrillic letters, whose two possible answers select
  message tables that are equal in the source).
\<close>

record env =
  client :: bool
  file_exists :: "string \<Rightarrow> bool"
  create_embedding :: "string \<Rightarrow> pyfloat list"
  floats :: float_ops
  heap_v :: heap
  rag :: rag_store
  VERSION_CHECK_TOP_K :: int
  detect_language :: "string \<Rightarrow> language"

text \<open>The outcomes of the external calls one handler execution may make.\<close>

record ext =
  intent_reply :: "string option reply"
  version_reply :: "version_json reply"
  answer_reply :: "answer_json reply"
  interaction_reply :: "bool option reply"
  button_reply :: "button_json option reply"
  validate_reply :: "validate_json option reply"
  review_reply :: "int list option reply"

section \<open>The stage handlers (nodes.py)\<close>

text \<open>\<^verbatim>\<open>sep.join(parts)\<close>\<close>

fun join :: "string \<Rightarrow> string list \<Rightarrow> string" where
  "join sep [] = []"
| "join sep [p] = p"
| "join sep (p # q # ps) = p @ sep @ join sep (q # ps)"

text \<open>\<^verbatim>\<open>d.get(key, default)\<close> for a key that may be missing.\<close>

definition get_default :: "'a option \<Rightarrow> 'a \<Rightarrow> 'a" where
  "get_default v d = (case v of None \<Rightarrow> d | Some x \<Rightarrow> x)"

text \<open>The header \<^verbatim>\<open>f"Step {n} of {total}:"\<close>.\<close>

definition step_header :: "int \<Rightarrow> nat \<Rightarrow> string" where
  "step_header n m = ''Step '' @ str_int n @ '' of '' @ str_int (int m) @ '':''"

text \<open>
  \<^verbatim>\<open>detect_user_intent\<close>. The source strips the answer of surrounding white space before the
  substring test, which cannot change whether \<^verbatim>\<open>"ableton"\<close> occurs.
\<close>

definition detect_user_intent :: "env \<Rightarrow> string option reply \<Rightarrow> AgentState \<Rightarrow> AgentState" where
  "detect_user_intent e r st =
     (if \<not> client e then st\<lparr>intent := Some ableton_question\<rparr>
      else case r of
        Raised msg \<Rightarrow> st\<lparr>intent := Some ableton_question\<rparr>
      | Returned content_v \<Rightarrow>
          if truthy content_v
          then (if str_contains ''ableton'' (lower (or_empty content_v))
                then st\<lparr>intent := Some ableton_question\<rparr>
                else st\<lparr>intent := Some other\<rparr>)
          else st\<lparr>intent := Some ableton_question\<rparr>)"

text \<open>
  \<^verbatim>\<open>check_ableton_version\<close>. The text joined from the version chunks goes into the prompt
  only; every dictionary \<^verbatim>\<open>retrieve\<close> returns has the key \<^verbatim>\<open>content\<close> it reads. The lists
  \<^verbatim>\<open>retrieve\<close> makes are unreachable once the handler returns, and the objects that were
  in the heap before are as they were (\<open>retrieve_heap\<close> below), so every call of a handler
  reads the same heap.
\<close>

definition check_ableton_version :: "env \<Rightarrow> version_json reply \<Rightarrow> AgentState \<Rightarrow> py_error + AgentState" where
  "check_ableton_version e r st =
     (let choice = lower (or_empty (user_choice st)) in
      if str_contains ''try anyway'' choice \<or> str_contains ''all the same'' choice
         \<or> str_contains ''proceed anyway'' choice
      then Inr (st\<lparr>allowed := Some True\<rparr>)
      else if allowed st \<noteq> None then Inr st
      else
        case snd (retrieve (floats e) (VERSION_CHECK_TOP_K e) (heap_v e) (rag e)
                    (create_embedding e (user_query st)) (ableton_edition st) 2) of
          Inl err \<Rightarrow> Inl err
        | Inr results \<Rightarrow>
            if versions results = [] then Inr (st\<lparr>allowed := Some True\<rparr>)
            else if \<not> client e then Inr (st\<lparr>allowed := Some True\<rparr>)
            else
              (case r of
                 Returned j \<Rightarrow>
                   Inr (st\<lparr>allowed := Some (get_default (json_allowed j) True),
                           version_explanation := json_explanation j\<rparr>)
               | Raised msg \<Rightarrow> Inr (st\<lparr>allowed := Some True\<rparr>)))"

text \<open>\<^verbatim>\<open>wait_for_version_choice\<close>\<close>

definition wait_for_version_choice :: "AgentState \<Rightarrow> AgentState" where
  "wait_for_version_choice st =
     (if truthy (user_choice st) then st\<lparr>action_required := None\<rparr>
      else st\<lparr>action_required := Some Wait_version_choice,
              response_text := Some
                (warning_sign @ '' In the current version ('' @ ableton_edition st
                 @ '') this will likely not work due to limitations: ''
                 @ fmt (version_explanation st) @ newline @ newline
                 @ ''Choose an action:'' @ newline
                 @ ''1. Try anyway'' @ newline
                 @ ''2. Formulate a new task'')\<rparr>)"

text \<open>\<^verbatim>\<open>retrieve_from_vectorstore\<close>\<close>

definition retrieve_from_vectorstore :: "env \<Rightarrow> AgentState \<Rightarrow> py_error + AgentState" where
  "retrieve_from_vectorstore e st =
     (case snd (retrieve (floats e) (VERSION_CHECK_TOP_K e) (heap_v e) (rag e)
                 (create_embedding e (user_query st)) (ableton_edition st) 5) of
        Inl err \<Rightarrow> Inl err
      | Inr results \<Rightarrow> Inr (st\<lparr>selected_chunks := full results\<rparr>))"

text \<open>
  The loops of \<^verbatim>\<open>generate_full_answer\<close> that complete each returned step: a step extracted
  from a supplied answer gets \<^verbatim>\<open>requires_click\<close> from its words when the key is missing, a
  generated step gets \<^verbatim>\<open>False\<close>.
\<close>

definition complete_extracted_step :: "step \<Rightarrow> step" where
  "complete_extracted_step s =
     (case requires_click s of
        None \<Rightarrow>
          s\<lparr>requires_click :=
              Some (any_in [''click'', ''press'', ''select'', ''choose'', ''open'']
                      (lower (or_empty (step_text s))))\<rparr>
      | Some b \<Rightarrow> s)"

definition complete_generated_step :: "step \<Rightarrow> step" where
  "complete_generated_step s =
     (case requires_click s of None \<Rightarrow> s\<lparr>requires_click := Some False\<rparr> | Some b \<Rightarrow> s)"

text \<open>
  \<^verbatim>\<open>generate_full_answer\<close>. The first branch is taken when an answer is already stored and
  no chunks were retrieved; the prompts are not part of the model. Outside that branch
  \<^verbatim>\<open>chunk["content"]\<close> raises \<^verbatim>\<open>KeyError\<close> for a chunk without that key.
\<close>

definition generate_full_answer :: "env \<Rightarrow> answer_json reply \<Rightarrow> AgentState \<Rightarrow> py_error + AgentState" where
  "generate_full_answer e r st =
     (let chunks = selected_chunks st; existing_answer = full_answer st in
      if truthy existing_answer \<and> chunks = [] then
        (if \<not> client e then Inr (st\<lparr>steps := []\<rparr>)
         else case r of
           Returned j \<Rightarrow>
             Inr (st\<lparr>full_answer := existing_answer,
                     steps := map complete_extracted_step (get_default (json_steps j) [])\<rparr>)
         | Raised msg \<Rightarrow> Inr (st\<lparr>steps := []\<rparr>))
      else if list_ex (\<lambda>chunk. map_of chunk ''content'' = None) chunks then Inl KeyError
      else if \<not> client e
      then Inr (st\<lparr>full_answer := Some ''OpenAI client not available.'', steps := []\<rparr>)
      else case r of
        Returned j \<Rightarrow>
          Inr (st\<lparr>full_answer := Some (get_default (json_answer_explanation j) []),
                  steps := map complete_generated_step (get_default (json_steps j) [])\<rparr>)
      | Raised msg \<Rightarrow>
          Inr (st\<lparr>full_answer := Some (''Error generating answer: '' @ msg), steps := []\<rparr>))"

text \<open>\<^verbatim>\<open>wait_for_user_step_choice\<close>\<close>

definition wait_for_user_step_choice :: "AgentState \<Rightarrow> AgentState" where
  "wait_for_user_step_choice st =
     (let choice = lower (or_empty (user_choice st)) in
      if choice \<noteq> [] then
        (if str_contains ''no'' choice \<or> str_contains ''thanks'' choice
            \<or> str_contains ''thank you'' choice
         then st\<lparr>action_required := None, mode := simple,
                 response_text := Some ''Okay, feel free to ask if you need help!''\<rparr>
         else if str_contains ''yes'' choice \<or> str_contains ''show'' choice
                 \<or> str_contains ''start'' choice
         then st\<lparr>action_required := None\<rparr>
         else st\<lparr>action_required := None\<rparr>)
      else
        st\<lparr>action_required := Some Wait_step_choice, mode := simple,
           response_text :=
             (if steps st \<noteq> []
              then Some (fmt (full_answer st) @ newline @ newline
                         @ ''Would you like me to show this step-by-step? (yes/no)'')
              else full_answer st)\<rparr>)"

text \<open>\<^verbatim>\<open>step_agent_start\<close>\<close>

definition step_agent_start :: "AgentState \<Rightarrow> AgentState" where
  "step_agent_start st =
     (if steps st = [] then st\<lparr>response_text := Some ''No steps to execute.''\<rparr>
      else st\<lparr>mode := step_by_step, current_step_index := 0,
              response_text := Some
                (step_header 1 (length (steps st)) @ newline
                 @ or_empty (step_text (hd (steps st))))\<rparr>)"

text \<open>
  \<^verbatim>\<open>detect_interaction_type\<close>. The current step is changed in place, inside the list the
  state holds.
\<close>

definition detect_interaction_type :: "env \<Rightarrow> bool option reply \<Rightarrow> AgentState \<Rightarrow> py_error + AgentState" where
  "detect_interaction_type e r st =
     (let stps = steps st; current_index = current_step_index st in
      if stps = [] \<or> int (length stps) \<le> current_index then Inr st
      else case position stps current_index of
        Inl err \<Rightarrow> Inl err
      | Inr p \<Rightarrow>
          let current_step = stps ! p; txt = or_empty (step_text current_step) in
          if \<not> client e
          then Inr (st\<lparr>steps := stps[p := current_step\<lparr>requires_click :=
                     Some (if txt \<noteq> []
                           then any_in [''click'', ''button'', ''menu'', ''select''] (lower txt)
                           else False)\<rparr>]\<rparr>)
          else
            (case r of
               Returned j \<Rightarrow>
                 Inr (st\<lparr>steps := stps[p := current_step\<lparr>requires_click :=
                        Some (get_default j False)\<rparr>]\<rparr>)
             | Raised msg \<Rightarrow>
                 Inr (st\<lparr>steps := stps[p := current_step\<lparr>requires_click :=
                        Some (if txt \<noteq> []
                              then any_in [''click'', ''button'', ''menu''] (lower txt)
                              else False)\<rparr>]\<rparr>)))"

text \<open>
  The coordinates \<^verbatim>\<open>analyze_screenshot_for_button\<close> reads from the JSON object found in
  the vision answer: \<^verbatim>\<open>result["y"]\<close> raises when \<^verbatim>\<open>y\<close> is missing, and the handler then
  clears the coordinates.
\<close>

definition parse_button :: "button_json \<Rightarrow> coords option" where
  "parse_button j =
     (if get_default (json_found j) True then
        (case json_x j of
           None \<Rightarrow> None
         | Some xv \<Rightarrow>
             (case json_y j of
                None \<Rightarrow> None
              | Some yv \<Rightarrow>
                  Some \<lparr>coord_x = xv, coord_y = yv,
                        coord_width = get_default (json_width j) 50,
                        coord_height = get_default (json_height j) 50\<rparr>))
      else None)"

text \<open>
  \<^verbatim>\<open>analyze_screenshot_for_button\<close>. \<open>Returned None\<close> is a vision answer in which no JSON
  object was found.
\<close>

definition analyze_screenshot_for_button ::
  "env \<Rightarrow> button_json option reply \<Rightarrow> AgentState \<Rightarrow> py_error + AgentState" where
  "analyze_screenshot_for_button e r st =
     (let stps = steps st; current_index = current_step_index st in
      if stps = [] \<or> int (length stps) \<le> current_index then Inr st
      else case position stps current_index of
        Inl err \<Rightarrow> Inl err
      | Inr p \<Rightarrow>
          if \<not> truthy (screenshot_url st) \<or> \<not> client e
          then Inr (st\<lparr>response_text := Some ''Screenshot not provided or client unavailable.''\<rparr>)
          else if \<not> file_exists e (or_empty (screenshot_url st))
          then Inr (st\<lparr>response_text := Some ''Screenshot file not found.''\<rparr>)
          else
            Inr (st\<lparr>steps := stps[p := (stps ! p)\<lparr>button_coords :=
                   (case r of
                      Raised msg \<Rightarrow> None
                    | Returned None \<Rightarrow> None
                    | Returned (Some j) \<Rightarrow> parse_button j)\<rparr>]\<rparr>))"

text \<open>\<^verbatim>\<open>wait_user_action\<close>\<close>

definition wait_user_action :: "AgentState \<Rightarrow> py_error + AgentState" where
  "wait_user_action st =
     (let st1 = st\<lparr>action_required := Some Wait_user_action\<rparr>;
          stps = steps st; current_index = current_step_index st in
      if stps \<noteq> [] \<and> current_index < int (length stps) then
        (case getitem stps current_index of
           Inl err \<Rightarrow> Inl err
         | Inr current_step \<Rightarrow>
             Inr (st1\<lparr>response_text := Some
                    (join newline
                       ([step_header (current_index + 1) (length stps) @ newline
                         @ or_empty (step_text current_step)]
                        @ (case button_coords current_step of
                             None \<Rightarrow> []
                           | Some c \<Rightarrow>
                               [newline @ ''Button coordinates: x='' @ str_int (coord_x c)
                                @ '', y='' @ str_int (coord_y c)])))\<rparr>))
      else Inr (st1\<lparr>response_text := Some ''All steps completed.''\<rparr>))"

text \<open>
  \<^verbatim>\<open>optional_validate_step\<close>, with a flag beside the result that tells whether the handler
  went as far as the vision call (it counts a failure to read the screenshot file as a
  call). \<open>Returned None\<close> is an answer without a JSON object.
\<close>

definition optional_validate_step_traced ::
  "env \<Rightarrow> validate_json option reply \<Rightarrow> AgentState \<Rightarrow> (py_error + AgentState) \<times> bool" where
  "optional_validate_step_traced e r st =
     (let stps = steps st; current_index = current_step_index st in
      if int (length stps) \<le> current_index then (Inr st, False)
      else case getitem stps current_index of
        Inl err \<Rightarrow> (Inl err, False)
      | Inr current_step \<Rightarrow>
          if str_contains ''skip'' (lower (or_empty (user_choice st))) then (Inr st, False)
          else if \<not> get_default (requires_click current_step) False then (Inr st, False)
          else if \<not> truthy (screenshot_url st) \<or> \<not> client e then (Inr st, False)
          else if \<not> file_exists e (or_empty (screenshot_url st)) then (Inr st, False)
          else
            (case r of
               Raised msg \<Rightarrow> (Inr st, True)
             | Returned None \<Rightarrow> (Inr st, True)
             | Returned (Some j) \<Rightarrow>
                 if \<not> get_default (json_valid j) True
                 then (Inr (st\<lparr>response_text := Some
                              (warning_sign @ '' ''
                               @ get_default (json_valid_explanation j)
                                   ''Step was not completed correctly.'')\<rparr>), True)
                 else (Inr st, True)))"

definition optional_validate_step ::
  "env \<Rightarrow> validate_json option reply \<Rightarrow> AgentState \<Rightarrow> py_error + AgentState" where
  "optional_validate_step e r st = fst (optional_validate_step_traced e r st)"

text \<open>\<^verbatim>\<open>next_step_or_finish\<close>\<close>

definition next_step_or_finish :: "AgentState \<Rightarrow> AgentState" where
  "next_step_or_finish st =
     (let stps = steps st; current_index = current_step_index st in
      if stps \<noteq> [] \<and> current_index < int (length stps) - 1
      then st\<lparr>current_step_index := current_index + 1\<rparr>
      else st\<lparr>action_required := Some Wait_task_completion_choice\<rparr>)"

text \<open>The completion question, one entry per language.\<close>

definition completion_question :: "language \<Rightarrow> string" where
  "completion_question l =
     (case l of ru \<Rightarrow> ''Did you manage to solve the task?''
              | en \<Rightarrow> ''Did you manage to solve the task?'')"

text \<open>\<^verbatim>\<open>final_confirmation\<close>\<close>

definition final_confirmation :: "env \<Rightarrow> AgentState \<Rightarrow> py_error + AgentState" where
  "final_confirmation e st =
     (let stps = steps st; current_index = current_step_index st;
          question = completion_question (detect_language e (user_query st)) in
      if stps \<noteq> [] \<and> current_index < int (length stps) then
        (case getitem stps current_index of
           Inl err \<Rightarrow> Inl err
         | Inr last_step \<Rightarrow>
             Inr (st\<lparr>response_text := Some
                     (step_header (current_index + 1) (length stps) @ newline
                      @ or_empty (step_text last_step) @ newline @ newline @ question),
                     action_required := Some Wait_task_completion_choice\<rparr>))
      else Inr (st\<lparr>response_text := Some question,
                   action_required := Some Wait_task_completion_choice\<rparr>))"

text \<open>
  \<^verbatim>\<open>fallback_review_steps\<close>. Listing the steps for the prompt reads \<^verbatim>\<open>step['text']\<close>, which
  raises inside the \<^verbatim>\<open>try\<close> for a step without text. The first index the model flags
  becomes the cursor as it is.
\<close>

definition fallback_review_steps :: "env \<Rightarrow> int list option reply \<Rightarrow> AgentState \<Rightarrow> AgentState" where
  "fallback_review_steps e r st =
     (if \<not> client e then st\<lparr>response_text := Some ''Failed to analyze steps.''\<rparr>
      else if list_ex (\<lambda>s. step_text s = None) (steps st)
      then st\<lparr>response_text := Some ''Failed to identify problematic steps.''\<rparr>
      else case r of
        Raised msg \<Rightarrow> st\<lparr>response_text := Some ''Failed to identify problematic steps.''\<rparr>
      | Returned j \<Rightarrow>
          (case get_default j [] of
             [] \<Rightarrow> st\<lparr>response_text := Some ''All steps completed correctly.''\<rparr>
           | first_problematic # others \<Rightarrow>
               st\<lparr>current_step_index := first_problematic, mode := step_by_step,
                  response_text := Some
                    (''Let's start from step '' @ str_int (first_problematic + 1) @ ''.'')\<rparr>))"

section \<open>The stage graph (workflow.py)\<close>

text \<open>The nodes \<^verbatim>\<open>create_workflow\<close> adds to the graph, and LangGraph's \<^verbatim>\<open>END\<close>.\<close>

datatype node =
  node_detect_intent | node_check_version | node_wait_version_choice | node_retrieve
| node_generate_answer | node_wait_step_choice | node_step_agent | node_detect_interaction
| node_analyze_screenshot | node_wait_action | node_validate | node_next_step
| node_final_confirmation | node_fallback | node_END

definition should_continue_after_intent :: "AgentState \<Rightarrow> node" where
  "should_continue_after_intent st =
     (if intent st = Some ableton_question then node_check_version else node_END)"

text \<open>\<^verbatim>\<open>not state.get("allowed", True)\<close> holds for \<^verbatim>\<open>False\<close> and for a stored \<^verbatim>\<open>None\<close>.\<close>

definition should_continue_after_version_check :: "AgentState \<Rightarrow> node" where
  "should_continue_after_version_check st =
     (if allowed st \<noteq> Some True then node_wait_version_choice else node_retrieve)"

definition should_continue_after_version_choice :: "AgentState \<Rightarrow> node" where
  "should_continue_after_version_choice st =
     (let choice = lower (or_empty (user_choice st)) in
      if str_contains ''new task'' choice \<or> str_contains ''cancel'' choice then node_END
      else node_retrieve)"

definition should_continue_after_step_choice :: "AgentState \<Rightarrow> node" where
  "should_continue_after_step_choice st =
     (let choice = lower (or_empty (user_choice st)) in
      if str_contains ''yes'' choice then node_step_agent else node_END)"

definition should_continue_after_interaction_type :: "AgentState \<Rightarrow> py_error + node" where
  "should_continue_after_interaction_type st =
     (let stps = steps st; current_index = current_step_index st in
      if stps \<noteq> [] \<and> current_index < int (length stps) then
        (case getitem stps current_index of
           Inl err \<Rightarrow> Inl err
         | Inr current_step \<Rightarrow>
             if get_default (requires_click current_step) False
             then Inr node_analyze_screenshot
             else Inr node_wait_action)
      else Inr node_wait_action)"

definition should_continue_after_user_action :: "AgentState \<Rightarrow> node" where
  "should_continue_after_user_action st =
     (let choice = lower (or_empty (user_choice st)) in
      if str_contains ''cancel'' choice then node_END
      else if str_contains ''skip'' choice then node_next_step
      else node_validate)"

definition should_continue_after_next_step :: "AgentState \<Rightarrow> node" where
  "should_continue_after_next_step st =
     (let stps = steps st; current_index = current_step_index st in
      if stps \<noteq> [] \<and> current_index < int (length stps) then node_detect_interaction
      else node_final_confirmation)"

definition should_continue_after_final_confirmation :: "AgentState \<Rightarrow> node" where
  "should_continue_after_final_confirmation st =
     (let choice = lower (or_empty (user_choice st)) in
      if str_contains ''yes'' choice \<or> str_contains ''solved'' choice \<or> str_contains ''done'' choice
      then node_END
      else node_fallback)"

text \<open>The handler \<^verbatim>\<open>add_node\<close> binds to each node.\<close>

definition run_node :: "env \<Rightarrow> ext \<Rightarrow> node \<Rightarrow> AgentState \<Rightarrow> py_error + AgentState" where
  "run_node e x n st =
     (case n of
        node_detect_intent \<Rightarrow> Inr (detect_user_intent e (intent_reply x) st)
      | node_check_version \<Rightarrow> check_ableton_version e (version_reply x) st
      | node_wait_version_choice \<Rightarrow> Inr (wait_for_version_choice st)
      | node_retrieve \<Rightarrow> retrieve_from_vectorstore e st
      | node_generate_answer \<Rightarrow> generate_full_answer e (answer_reply x) st
      | node_wait_step_choice \<Rightarrow> Inr (wait_for_user_step_choice st)
      | node_step_agent \<Rightarrow> Inr (step_agent_start st)
      | node_detect_interaction \<Rightarrow> detect_interaction_type e (interaction_reply x) st
      | node_analyze_screenshot \<Rightarrow> analyze_screenshot_for_button e (button_reply x) st
      | node_wait_action \<Rightarrow> wait_user_action st
      | node_validate \<Rightarrow> optional_validate_step e (validate_reply x) st
      | node_next_step \<Rightarrow> Inr (next_step_or_finish st)
      | node_final_confirmation \<Rightarrow> final_confirmation e st
      | node_fallback \<Rightarrow> Inr (fallback_review_steps e (review_reply x) st)
      | node_END \<Rightarrow> Inr st)"

text \<open>The edges and conditional edges: the node that follows \<open>n\<close> once it has produced \<open>st\<close>.\<close>

definition next_node :: "node \<Rightarrow> AgentState \<Rightarrow> py_error + node" where
  "next_node n st =
     (case n of
        node_detect_intent \<Rightarrow> Inr (should_continue_after_intent st)
      | node_check_version \<Rightarrow> Inr (should_continue_after_version_check st)
      | node_wait_version_choice \<Rightarrow> Inr (should_continue_after_version_choice st)
      | node_retrieve \<Rightarrow> Inr node_generate_answer
      | node_generate_answer \<Rightarrow> Inr node_wait_step_choice
      | node_wait_step_choice \<Rightarrow> Inr (should_continue_after_step_choice st)
      | node_step_agent \<Rightarrow> Inr node_detect_interaction
      | node_detect_interaction \<Rightarrow> should_continue_after_interaction_type st
      | node_analyze_screenshot \<Rightarrow> Inr node_wait_action
      | node_wait_action \<Rightarrow> Inr (should_continue_after_user_action st)
      | node_validate \<Rightarrow> Inr node_next_step
      | node_next_step \<Rightarrow> Inr (should_continue_after_next_step st)
      | node_final_confirmation \<Rightarrow> Inr (should_continue_after_final_confirmation st)
      | node_fallback \<Rightarrow> Inr node_step_agent
      | node_END \<Rightarrow> Inr node_END)"

text \<open>The cursor is within the step list, and the cursor is on a step.\<close>

definition cursor_in_range :: "AgentState \<Rightarrow> bool" where
  "cursor_in_range st \<longleftrightarrow> 0 \<le> current_step_index st \<and> current_step_index st \<le> int (length (steps st))"

definition cursor_on_step :: "AgentState \<Rightarrow> bool" where
  "cursor_on_step st \<longleftrightarrow> 0 \<le> current_step_index st \<and> current_step_index st < int (length (steps st))"

text \<open>A handler left the cursor and the number of steps as they were.\<close>

definition same_cursor :: "AgentState \<Rightarrow> AgentState \<Rightarrow> bool" where
  "same_cursor st st' \<longleftrightarrow>
     length (steps st') = length (steps st) \<and> current_step_index st' = current_step_index st"

section \<open>The endpoints (main.py)\<close>

text \<open>The session \<^verbatim>\<open>/chat\<close> creates for an unknown session id.\<close>

definition new_session ::
  "string \<Rightarrow> string \<Rightarrow> string \<Rightarrow> conversation_entry list \<Rightarrow> string option \<Rightarrow> AgentState" where
  "new_session sid message edition_v history shot =
     \<lparr>session_id = sid, user_query = message, ableton_edition = edition_v,
      conversation_history = history, screenshot_url = shot, intent = None, allowed = None,
      version_explanation = None, selected_chunks = [], full_answer = None, steps = [],
      mode = simple, current_step_index = 0, user_choice = None, action_required = None,
      response_text = None\<rparr>"

text \<open>
  \<^verbatim>\<open>workflow.stream(initial_state)\<close> is a generator of LangGraph. Asking it for the next item
  runs the next stage and gives a dictionary from node names to the states their handlers
  returned, or finds the graph at its end, or lets an exception of a handler through. A
  stream is the answer to the \<open>i\<close>-th request, for every \<open>i\<close>; it may never end.
\<close>

datatype stream_item = Yield "(node \<times> AgentState) list" | Stop | Throw py_error

type_synonym stream = "nat \<Rightarrow> stream_item"

definition max_iterations :: nat where
  "max_iterations = 20"

text \<open>
  The inner loop of \<^verbatim>\<open>chat\<close> over the items of one dictionary: \<open>result\<close> becomes each
  node's state in turn, and the loop leaves at the first state that requires an action.
\<close>

fun consume_step :: "AgentState \<Rightarrow> (node \<times> AgentState) list \<Rightarrow> AgentState" where
  "consume_step result [] = result"
| "consume_step result ((node_name, node_state) # rest) =
     (if action_required node_state \<noteq> None then node_state else consume_step node_state rest)"

text \<open>
  The outer loop of \<^verbatim>\<open>chat\<close>, from the state where \<open>iteration\<close> items have been taken.
  It returns the last result and the number of items taken, or the exception of a handler,
  which \<^verbatim>\<open>chat\<close> turns into the status 500.
\<close>

function chat_loop :: "stream \<Rightarrow> nat \<Rightarrow> AgentState \<Rightarrow> py_error + (AgentState \<times> nat)" where
  "chat_loop strm iteration result =
     (case strm iteration of
        Stop \<Rightarrow> Inr (result, iteration)
      | Throw err \<Rightarrow> Inl err
      | Yield step_v \<Rightarrow>
          (let iteration' = iteration + 1; result' = consume_step result step_v in
           if action_required result' \<noteq> None \<or> max_iterations \<le> iteration'
           then Inr (result', iteration')
           else chat_loop strm iteration' result'))"
  by pat_completeness auto
termination
  by (relation "measure (\<lambda>(strm, iteration, result). max_iterations - iteration)") auto

declare chat_loop.simps [simp del]

text \<open>
  The text \<^verbatim>\<open>chat\<close> answers with:
  \<^verbatim>\<open>result.get("response_text") or result.get("full_answer") or "No response generated."\<close>
\<close>

definition chat_response_text :: "AgentState \<Rightarrow> string" where
  "chat_response_text result =
     (if truthy (response_text result) then or_empty (response_text result)
      else if truthy (full_answer result) then or_empty (full_answer result)
      else ''No response generated.'')"

text \<open>The part of \<^verbatim>\<open>chat\<close> from the loop to the response text, for the stream of a turn.\<close>

definition chat_run :: "stream \<Rightarrow> AgentState \<Rightarrow> py_error + (string \<times> AgentState \<times> nat)" where
  "chat_run strm initial_state =
     (case chat_loop strm 0 initial_state of
        Inl err \<Rightarrow> Inl err
      | Inr (result, iteration) \<Rightarrow> Inr (chat_response_text result, result, iteration))"

text \<open>
  The stream LangGraph makes of the compiled graph: it starts at the entry point, and
  each request runs the handler of the current node with the outcomes \<open>xs i\<close> of its external
  calls and follows the edge from it. \<open>graph_at\<close> is the node to run and the state before
  the \<open>i\<close>-th request.
\<close>

fun graph_at :: "env \<Rightarrow> (nat \<Rightarrow> ext) \<Rightarrow> AgentState \<Rightarrow> nat \<Rightarrow> py_error + (node \<times> AgentState)" where
  "graph_at e xs initial_state 0 = Inr (node_detect_intent, initial_state)"
| "graph_at e xs initial_state (Suc i) =
     (case graph_at e xs initial_state i of
        Inl err \<Rightarrow> Inl err
      | Inr (n, st) \<Rightarrow>
          (case run_node e (xs i) n st of
             Inl err \<Rightarrow> Inl err
           | Inr st' \<Rightarrow>
               (case next_node n st' of Inl err \<Rightarrow> Inl err | Inr n' \<Rightarrow> Inr (n', st'))))"

definition graph_stream :: "env \<Rightarrow> (nat \<Rightarrow> ext) \<Rightarrow> AgentState \<Rightarrow> stream" where
  "graph_stream e xs initial_state i =
     (case graph_at e xs initial_state i of
        Inl err \<Rightarrow> Throw err
      | Inr (n, st) \<Rightarrow>
          if n = node_END then Stop
          else
            (case graph_at e xs initial_state (Suc i) of
               Inl err \<Rightarrow> Throw err
             | Inr (n', st') \<Rightarrow> Yield [(n, st')]))"

text \<open>
  The position of a node on the longest path from the entry point to the first stage that
  waits for an action of the user; the other nodes come after it.
\<close>

fun stage_rank :: "node \<Rightarrow> nat" where
  "stage_rank node_detect_intent = 0"
| "stage_rank node_check_version = 1"
| "stage_rank node_wait_version_choice = 2"
| "stage_rank node_retrieve = 3"
| "stage_rank node_generate_answer = 4"
| "stage_rank node_wait_step_choice = 5"
| "stage_rank node_step_agent = 6"
| "stage_rank node_detect_interaction = 7"
| "stage_rank node_analyze_screenshot = 8"
| "stage_rank node_wait_action = 9"
| "stage_rank n = 10"

text \<open>
  The graph has not passed \<^verbatim>\<open>wait_action\<close> before its \<open>i\<close>-th request: it is at the end
  after at most 10 stages, or at a node whose position is at least \<open>i\<close>.
\<close>

definition on_first_path :: "env \<Rightarrow> (nat \<Rightarrow> ext) \<Rightarrow> AgentState \<Rightarrow> nat \<Rightarrow> bool" where
  "on_first_path e xs st0 i \<longleftrightarrow>
     (case graph_at e xs st0 i of
        Inl err \<Rightarrow> True
      | Inr (n, st) \<Rightarrow> if n = node_END then i \<le> 10 else i \<le> stage_rank n \<and> stage_rank n \<le> 9)"

text \<open>The request and response models of \<^verbatim>\<open>/step\<close>.\<close>

record StepRequest =
  req_session_id :: string
  user_action :: string
  req_screenshot_url :: "string option"

record StepResponse =
  resp_step_text :: string
  resp_step_index :: int
  resp_total_steps :: nat
  resp_requires_click :: bool
  resp_button_coords :: "coords option"
  resp_action_required :: "action option"

text \<open>
  An \<^verbatim>\<open>HTTPException\<close> with its status and detail, and the status 500 that answers an
  exception raised while the step is processed.
\<close>

datatype http_error = HTTPException nat string | Server_error py_error

definition yes_keywords :: "string list" where
  "yes_keywords = [''yes'', ''solved'', ''done'', ''completed'', ''finished'', ''managed'', ''succeeded'']"

definition no_keywords :: "string list" where
  "no_keywords = [''no'', ''failed'', ''didn't'', ''couldn't'', ''unable'', ''not solved'']"

definition completion_message :: "language \<Rightarrow> string" where
  "completion_message l =
     (case l of
        ru \<Rightarrow> ''Great! Task completed. If you need help with anything else, just ask!''
      | en \<Rightarrow> ''Great! Task completed. If you need help with anything else, just ask!'')"

text \<open>
  The part of \<^verbatim>\<open>step\<close> that answers a session whose state requires the completion
  choice, after \<open>result\<close> has been stored as the session. \<open>stps\<close> is the step list read at
  the start of the request.
\<close>

definition completion_choice ::
  "env \<Rightarrow> ext \<Rightarrow> StepRequest \<Rightarrow> step list \<Rightarrow> AgentState \<Rightarrow> AgentState \<times> (http_error + StepResponse)" where
  "completion_choice e x request stps result =
     (let user_choice_lower = lower (user_action request);
          query_lang = detect_language e (user_query result);
          is_yes = any_in yes_keywords user_choice_lower;
          is_no = any_in no_keywords user_choice_lower in
      if is_yes then
        (result\<lparr>action_required := None, mode := simple\<rparr>,
         Inr \<lparr>resp_step_text = completion_message query_lang,
              resp_step_index = int (length stps) - 1, resp_total_steps = length stps,
              resp_requires_click = False, resp_button_coords = None,
              resp_action_required = None\<rparr>)
      else if is_no then
        (let session1 = result\<lparr>current_step_index := 0, action_required := Some Wait_user_action\<rparr> in
         case getitem stps 0 of
           Inl err \<Rightarrow> (session1, Inl (Server_error err))
         | Inr first_step \<Rightarrow>
             (let first_step_text =
                    step_header 1 (length stps) @ newline @ or_empty (step_text first_step) in
              case detect_interaction_type e (interaction_reply x)
                     (session1\<lparr>steps := stps, current_step_index := 0\<rparr>) of
                Inl err \<Rightarrow> (session1, Inl (Server_error err))
              | Inr result' \<Rightarrow>
                  (result',
                   Inr \<lparr>resp_step_text = first_step_text, resp_step_index = 0,
                        resp_total_steps = length stps,
                        resp_requires_click = get_default (requires_click (steps result' ! 0)) False,
                        resp_button_coords = button_coords (steps result' ! 0),
                        resp_action_required = Some Wait_user_action\<rparr>)))
      else
        (result,
         Inr \<lparr>resp_step_text =
                step_header (int (length stps)) (length stps) @ newline
                @ or_empty (step_text (last stps)) @ newline @ newline
                @ completion_question query_lang,
              resp_step_index = int (length stps) - 1, resp_total_steps = length stps,
              resp_requires_click = False, resp_button_coords = None,
              resp_action_required = Some Wait_task_completion_choice\<rparr>))"

text \<open>
  The part of \<^verbatim>\<open>step\<close> that presents the step the cursor has moved to. \<open>current_index\<close>
  is the cursor read at the start of the request.
\<close>

definition present_next ::
  "env \<Rightarrow> ext \<Rightarrow> step list \<Rightarrow> int \<Rightarrow> AgentState \<Rightarrow> AgentState \<times> (http_error + StepResponse)" where
  "present_next e x stps current_index result0 =
     (let forced = (current_step_index result0 = current_index
                    \<and> current_index < int (length stps) - 1);
          new_index = (if forced then current_index + 1 else current_step_index result0);
          result = (if forced then result0\<lparr>current_step_index := new_index\<rparr> else result0) in
      if new_index = int (length stps) - 1 then
        (case final_confirmation e result of
           Inl err \<Rightarrow> (result, Inl (Server_error err))
         | Inr result' \<Rightarrow>
             (result',
              Inr \<lparr>resp_step_text = or_empty (response_text result'),
                   resp_step_index = new_index, resp_total_steps = length stps,
                   resp_requires_click = False, resp_button_coords = None,
                   resp_action_required = Some Wait_task_completion_choice\<rparr>))
      else if new_index < int (length stps) \<and> 0 \<le> new_index then
        (case detect_interaction_type e (interaction_reply x) result of
           Inl err \<Rightarrow> (result, Inl (Server_error err))
         | Inr result' \<Rightarrow>
             (let next_step = steps result' ! nat new_index in
              (result',
               Inr \<lparr>resp_step_text =
                      step_header (new_index + 1) (length stps) @ newline
                      @ or_empty (step_text next_step),
                    resp_step_index = new_index, resp_total_steps = length stps,
                    resp_requires_click = get_default (requires_click next_step) False,
                    resp_button_coords = button_coords next_step,
                    resp_action_required = Some Wait_user_action\<rparr>)))
      else
        (result\<lparr>action_required := None, mode := simple\<rparr>,
         Inr \<lparr>resp_step_text = ''All steps completed.'',
              resp_step_index = int (length stps) - 1, resp_total_steps = length stps,
              resp_requires_click = False, resp_button_coords = None,
              resp_action_required = None\<rparr>))"

text \<open>
  The pieces of \<^verbatim>\<open>step\<close>, the handler of \<^verbatim>\<open>/step\<close>. First the session once the decision
  and the screenshot of the request are stored in it.
\<close>

definition step_session :: "AgentState \<Rightarrow> StepRequest \<Rightarrow> AgentState" where
  "step_session session0 request =
     session0\<lparr>user_choice := Some (user_action request),
        screenshot_url := (if truthy (req_screenshot_url request)
                           then req_screenshot_url request
                           else screenshot_url session0)\<rparr>"

text \<open>The state dictionary \<^verbatim>\<open>step\<close> builds from the session for the handlers.\<close>

definition step_state :: "AgentState \<Rightarrow> StepRequest \<Rightarrow> AgentState" where
  "step_state session request =
     session\<lparr>mode := step_by_step, user_choice := Some (user_action request),
        response_text := None\<rparr>"

text \<open>
  The branch on ``skip'': validation is left out, or \<^verbatim>\<open>optional_validate_step\<close> runs. The
  flag tells whether validation went as far as its vision call.
\<close>

definition step_validate ::
  "env \<Rightarrow> ext \<Rightarrow> StepRequest \<Rightarrow> AgentState \<Rightarrow> (py_error + AgentState) \<times> bool" where
  "step_validate e x request state =
     (if str_contains ''skip'' (lower (user_action request))
      then (Inr state, False)
      else optional_validate_step_traced e (validate_reply x) state)"

text \<open>
  \<^verbatim>\<open>next_step_or_finish\<close> and what follows it: the session to store and the response.
\<close>

definition step_answer ::
  "env \<Rightarrow> ext \<Rightarrow> StepRequest \<Rightarrow> step list \<Rightarrow> int \<Rightarrow> AgentState
     \<Rightarrow> AgentState \<times> (http_error + StepResponse)" where
  "step_answer e x request stps current_index state' =
     (let result = next_step_or_finish state' in
      if action_required result = Some Wait_task_completion_choice
      then completion_choice e x request stps result
      else present_next e x stps current_index result)"

text \<open>
  \<^verbatim>\<open>step\<close> on the table of sessions. It returns the table after the request, the response
  or the error, and whether step validation went as far as its vision call.
\<close>

definition step ::
  "env \<Rightarrow> ext \<Rightarrow> (string \<rightharpoonup> AgentState) \<Rightarrow> StepRequest
     \<Rightarrow> (string \<rightharpoonup> AgentState) \<times> (http_error + StepResponse) \<times> bool" where
  "step e x sessions request =
     (case sessions (req_session_id request) of
        None \<Rightarrow> (sessions, Inl (HTTPException 404 ''Session not found''), False)
      | Some session0 \<Rightarrow>
          (let sid = req_session_id request;
               session = step_session session0 request;
               stps = steps session;
               current_index = current_step_index session in
           if int (length stps) \<le> current_index
           then (sessions(sid \<mapsto> session), Inl (HTTPException 400 ''No more steps''), False)
           else case getitem stps current_index of
             Inl err \<Rightarrow> (sessions(sid \<mapsto> session), Inl (Server_error err), False)
           | Inr current_step \<Rightarrow>
               if str_contains ''cancel'' (lower (user_action request))
               then (sessions(sid \<mapsto> session),
                     Inr \<lparr>resp_step_text = ''Task cancelled.'', resp_step_index = current_index,
                          resp_total_steps = length stps, resp_requires_click = False,
                          resp_button_coords = None, resp_action_required = None\<rparr>,
                     False)
               else
                 (let validated = step_validate e x request (step_state session request)
                  in case fst validated of
                    Inl err \<Rightarrow> (sessions(sid \<mapsto> session), Inl (Server_error err), snd validated)
                  | Inr state' \<Rightarrow>
                      (let answer = step_answer e x request stps current_index state'
                       in (sessions(sid \<mapsto> fst answer), snd answer, snd validated)))))"

section \<open>Example inputs\<close>

text \<open>
  A store of three chunks and two version chunks. With the query \<open>[1, 0]\<close> the chunks
  \<open>b\<close> and \<open>c\<close> score 1 and \<open>a\<close> scores 0; every number of that computation is a small
  integer.
\<close>

definition example_chunks :: "chunk list" where
  "example_chunks =
     [\<lparr>chunk_id = ''a'', content = ''A'', edition = None, embedding = [Finite 0, Finite 1],
        metadata = []\<rparr>,
      \<lparr>chunk_id = ''b'', content = ''B'', edition = Some ''Suite'', embedding = [Finite 1, Finite 0],
        metadata = [(''title'', ''Effects'')]\<rparr>,
      \<lparr>chunk_id = ''c'', content = ''C'', edition = None, embedding = [Finite 2, Finite 0],
        metadata = []\<rparr>]"

definition example_version_chunks :: "chunk list" where
  "example_version_chunks =
     [\<lparr>chunk_id = ''v1'', content = ''V1'', edition = Some ''Intro'', embedding = [Finite 0, Finite 2],
        metadata = []\<rparr>,
      \<lparr>chunk_id = ''v2'', content = ''V2'', edition = Some ''Suite'', embedding = [Finite 2, Finite 0],
        metadata = []\<rparr>]"

definition example_heap :: heap where
  "example_heap = [Chunk_list example_chunks, Chunk_list example_version_chunks]"

definition example_store :: rag_store where
  "example_store = \<lparr>full_index = 0, versions_index = 1\<rparr>"

definition example_env :: env where
  "example_env =
     \<lparr>client = True, file_exists = (\<lambda>path. True),
      create_embedding = (\<lambda>txt. [Finite 1, Finite 0]), floats = unrounded_ops,
      heap_v = example_heap, rag = example_store, VERSION_CHECK_TOP_K = 1,
      detect_language = (\<lambda>txt. en)\<rparr>"

definition example_steps :: "step list" where
  "example_steps =
     [\<lparr>step_text = Some ''Open the browser'', requires_click = Some False, button_coords = None\<rparr>,
      \<lparr>step_text = Some ''Drag Reverb onto the track'', requires_click = Some False,
         button_coords = None\<rparr>]"

text \<open>A session that is delivering the two example steps and waits at the first.\<close>

definition example_session :: AgentState where
  "example_session =
     (new_session ''s1'' ''How do I add an audio effect?'' ''Suite'' [] None)
       \<lparr>intent := Some ableton_question, allowed := Some True,
        full_answer := Some ''Open the browser. Drag Reverb onto the track.'',
        steps := example_steps, mode := step_by_step, current_step_index := 0,
        action_required := Some Wait_user_action\<rparr>"

text \<open>External outcomes in which every call succeeds with an empty JSON object.\<close>

definition example_ext :: ext where
  "example_ext =
     \<lparr>intent_reply = Returned (Some ''ableton_question''),
      version_reply = Returned \<lparr>json_allowed = None, json_explanation = None\<rparr>,
      answer_reply = Returned \<lparr>json_answer_explanation = None, json_steps = None\<rparr>,
      interaction_reply = Returned None,
      button_reply = Returned None,
      validate_reply = Returned None,
      review_reply = Returned None\<rparr>"

text \<open>A session for which chunks were retrieved and no answer was generated yet.\<close>

definition example_retrieved :: AgentState where
  "example_retrieved =
     (new_session ''s2'' ''How do I add an audio effect?'' ''Suite'' [] None)
       \<lparr>intent := Some ableton_question, allowed := Some True,
        selected_chunks := [chunk_to_dict (example_chunks ! 1)]\<rparr>"

text \<open>A session that was asked the step-by-step question and got the reply of the user.\<close>

definition example_choice_session :: "string \<Rightarrow> AgentState" where
  "example_choice_session reply_v =
     example_session\<lparr>mode := simple, action_required := Some Wait_step_choice,
       user_choice := Some reply_v\<rparr>"

text \<open>
  A first turn: a new session with a question, and external outcomes in which the answer
  has two steps.
\<close>

definition example_turn :: "nat \<Rightarrow> ext" where
  "example_turn i =
     example_ext\<lparr>answer_reply := Returned
       \<lparr>json_answer_explanation = Some ''Open the browser. Drag Reverb onto the track.'',
        json_steps = Some example_steps\<rparr>\<rparr>"

definition example_question :: AgentState where
  "example_question = new_session ''s3'' ''How do I add an audio effect?'' ''Suite'' [] None"

text \<open>The example session on its last step, asked whether the task is solved.\<close>

definition example_confirm_session :: AgentState where
  "example_confirm_session =
     example_session\<lparr>current_step_index := 1,
       action_required := Some Wait_task_completion_choice,
       response_text := Some (''Step 2 of 2:'' @ newline @ ''Drag Reverb onto the track''
                              @ newline @ newline @ ''Did you manage to solve the task?'')\<rparr>"

section \<open>Properties of the retrieval store\<close>

lemma in_range_small [simp]: "\<bar>r\<bar> \<le> 1024 \<Longrightarrow> in_range r = Finite r"
proof -
  have "(2::real) ^ 10 < 2 ^ 1024" by (rule power_strict_increasing) simp_all
  then have "(1024::real) < 2 ^ 1024" by simp
  then show "\<bar>r\<bar> \<le> 1024 \<Longrightarrow> in_range r = Finite r"
    by (auto simp: in_range_def)
qed


















lemma descending_key_le:
  "x \<noteq> NaN \<Longrightarrow> y \<noteq> NaN \<Longrightarrow> descending_key x \<le> descending_key y \<longleftrightarrow> float_le y x"
  by (cases x; cases y) (auto simp: descending_key_def float_le_def)

lemma descending_key_eq:
  "x \<noteq> NaN \<Longrightarrow> y \<noteq> NaN \<Longrightarrow> descending_key x = descending_key y \<longleftrightarrow> float_eq y x"
  by (cases x; cases y) (auto simp: descending_key_def)

lemma comprehension_total:
  "(\<And>x. x \<in> set xs \<Longrightarrow> f x = Inr (g x)) \<Longrightarrow> comprehension f xs = Inr (map g xs)"
  by (induction xs) simp_all


lemma insort_key_map_commute:
  "insort_key f (g y) (map g ys) = map g (insort_key (\<lambda>x. f (g x)) y ys)"
  by (induction ys) simp_all

lemma sort_key_map_commute:
  "sort_key f (map g xs) = map g (sort_key (\<lambda>x. f (g x)) xs)"
  by (induction xs) (simp_all add: insort_key_map_commute)

lemma slice_to_map: "slice_to k (map g xs) = map g (slice_to k xs)"
  by (simp add: slice_to_def take_map)

lemma scored_value:
  assumes "\<forall>c\<in>set cs. \<exists>s. cosine_similarity ops q (embedding c) = Inr s"
  shows "comprehension
           (\<lambda>c. case cosine_similarity ops q (embedding c) of Inl e \<Rightarrow> Inl e | Inr s \<Rightarrow> Inr (c, s))
           cs = Inr (map (\<lambda>c. (c, similarity ops q c)) cs)"
  using assms by (intro comprehension_total) (auto simp: similarity_def)


lemma ranking_of_scored:
  "map fst (slice_to k (sort_reverse snd (map (\<lambda>c. (c, s c)) cs))) = slice_to k (sort_reverse s cs)"
  by (simp add: sort_reverse_def sort_key_map_commute slice_to_map [symmetric] comp_def)

lemma top_matches_value:
  assumes "r < length h" "h ! r = Chunk_list cs"
    and "\<forall>c\<in>set cs. \<exists>s. cosine_similarity ops q (embedding c) = Inr s"
  shows "top_matches ops h r q k =
           (h @ [Scored_list (sort_reverse snd (map (\<lambda>c. (c, similarity ops q c)) cs))],
            Inr (slice_to k (sort_reverse (similarity ops q) cs)))"
  using assms(1,2)
  by (simp add: top_matches_def chunks_at_def scored_value [OF assms(3)] Let_def ranking_of_scored)





lemma sort_reverse_sorted:
  assumes "\<forall>x\<in>set xs. s x \<noteq> NaN"
  shows "sorted_wrt (\<lambda>a b. float_le (s b) (s a)) (sort_reverse s xs)"
proof -
  have "sorted (map (\<lambda>x. descending_key (s x)) (sort_reverse s xs))"
    by (simp add: sort_reverse_def)
  then have "sorted_wrt (\<lambda>a b. descending_key (s a) \<le> descending_key (s b)) (sort_reverse s xs)"
    by (simp add: sorted_map)
  moreover have "set (sort_reverse s xs) = set xs" by (simp add: sort_reverse_def)
  ultimately show ?thesis
    using assms by (auto intro!: sorted_wrt_mono_rel [where P = "\<lambda>a b. descending_key (s a) \<le> descending_key (s b)"]
        simp: descending_key_le)
qed

lemma sort_reverse_stable:
  assumes "\<forall>x\<in>set xs. s x \<noteq> NaN" "v \<noteq> NaN"
  shows "filter (\<lambda>d. float_eq (s d) v) (sort_reverse s xs) = filter (\<lambda>d. float_eq (s d) v) xs"
proof -
  have e: "float_eq (s d) v \<longleftrightarrow> descending_key (s d) = descending_key v" if "d \<in> set xs" for d
    using that assms descending_key_eq [of v "s d"] by auto
  have "filter (\<lambda>d. float_eq (s d) v) (sort_reverse s xs)
          = filter (\<lambda>d. descending_key (s d) = descending_key v) (sort_reverse s xs)"
    by (rule filter_cong) (simp_all add: e sort_reverse_def)
  also have "\<dots> = filter (\<lambda>d. descending_key (s d) = descending_key v) xs"
    unfolding sort_reverse_def by (rule sort_key_stable)
  also have "\<dots> = filter (\<lambda>d. float_eq (s d) v) xs"
    by (rule filter_cong) (simp_all add: e)
  finally show ?thesis .
qed

lemma mset_sort_reverse: "mset (sort_reverse s xs) = mset xs"
  by (simp add: sort_reverse_def)

lemma ranked_take:
  assumes num: "\<forall>x\<in>set idx. s x \<noteq> NaN"
  shows "ranked s (int n) idx (take n (sort_reverse s idx))"
proof -
  let ?S = "sort_reverse s idx"
  let ?le = "\<lambda>a b. float_le (s b) (s a)"
  have split: "?S = take n ?S @ drop n ?S" by simp
  have srt: "sorted_wrt ?le (take n ?S @ drop n ?S)"
    using sort_reverse_sorted [OF num] by simp
  have 1: "int (length (take n ?S)) \<le> int n" by simp
  have 2: "sorted_wrt ?le (take n ?S)"
    using srt by (simp only: sorted_wrt_append)
  have 3: "prefix (filter (\<lambda>d. float_eq (s d) (s c)) (take n ?S))
                  (filter (\<lambda>d. float_eq (s d) (s c)) idx)" if "c \<in> set idx" for c
  proof -
    have "prefix (filter (\<lambda>d. float_eq (s d) (s c)) (take n ?S))
                 (filter (\<lambda>d. float_eq (s d) (s c)) ?S)"
      by (rule filter_mono_prefix) (rule take_is_prefix)
    then show ?thesis using sort_reverse_stable [OF num, of "s c"] num that by simp
  qed
  have m: "mset idx = mset (take n ?S) + mset (drop n ?S)"
    by (metis mset_sort_reverse split mset_append)
  have 4: "mset (take n ?S) \<subseteq># mset idx" by (simp add: m)
  have 5: "float_le (s b) (s a)" if "a \<in> set (take n ?S)" "b \<in># mset idx - mset (take n ?S)" for a b
  proof -
    from that(2) have "b \<in> set (drop n ?S)" by (simp add: m)
    with that(1) srt show ?thesis by (simp only: sorted_wrt_append)
  qed
  show ?thesis unfolding ranked_def using 1 2 3 4 5 by blast
qed

lemma ranked_slice:
  assumes "0 \<le> k" "\<forall>x\<in>set idx. s x \<noteq> NaN"
  shows "ranked s k idx (slice_to k (sort_reverse s idx))"
  using ranked_take [OF assms(2), of "nat k"] assms(1) by (simp add: slice_to_def)

lemma score_is_number_computed:
  "score_is_number ops q c \<Longrightarrow> \<exists>s. cosine_similarity ops q (embedding c) = Inr s"
  by (auto simp: score_is_number_def split: sum.splits)

lemma score_is_number_similarity:
  "score_is_number ops q c \<Longrightarrow> similarity ops q c \<noteq> NaN"
  by (auto simp: score_is_number_def similarity_def split: sum.splits)

lemma retrieve_value:
  assumes "full_index store < length h" "h ! full_index store = Chunk_list fidx"
    and "versions_index store < length h" "h ! versions_index store = Chunk_list vidx"
    and "\<forall>c\<in>set fidx. \<exists>s. cosine_similarity ops q (embedding c) = Inr s"
    and "\<forall>c\<in>set vidx. \<exists>s. cosine_similarity ops q (embedding c) = Inr s"
  shows "retrieve ops kv h store q ed k =
     (h @ [Scored_list (sort_reverse snd (map (\<lambda>c. (c, similarity ops q c)) fidx)),
           Scored_list (sort_reverse snd (map (\<lambda>c. (c, similarity ops q c)) vidx))],
      Inr \<lparr>full = map chunk_to_dict (slice_to k (sort_reverse (similarity ops q) fidx)),
           versions = map chunk_to_dict (slice_to kv (sort_reverse (similarity ops q) vidx))\<rparr>)"
proof -
  let ?h1 = "h @ [Scored_list (sort_reverse snd (map (\<lambda>c. (c, similarity ops q c)) fidx))]"
  have v1: "versions_index store < length ?h1" using assms(3) by simp
  have v2: "?h1 ! versions_index store = Chunk_list vidx" using assms(3,4) by (simp add: nth_append)
  show ?thesis
    by (simp add: retrieve_def top_matches_value [OF assms(1,2,5)]
        top_matches_value [OF v1 v2 assms(6)])
qed

text \<open>
  Claim C2, amended. For every query embedding, edition and counts \<open>k\<close> and \<open>kv\<close> that
  are not negative, if the score of every stored chunk is a number, \<^verbatim>\<open>retrieve\<close> returns
  the dictionaries of at most \<open>k\<close> chunks of the full collection and of at most \<open>kv\<close>
  (\<open>VERSION_CHECK_TOP_K\<close>) chunks of the versions collection, each list in non-increasing
  similarity to the query, chunks of equal similarity in load order.
\<close>

theorem retrieve_ranked:
  assumes "0 \<le> k" and "0 \<le> kv"
    and "full_index store < length h" and "h ! full_index store = Chunk_list fidx"
    and "versions_index store < length h" and "h ! versions_index store = Chunk_list vidx"
    and "\<forall>c\<in>set fidx \<union> set vidx. score_is_number ops q c"
  shows "\<exists>h' fc vc.
           retrieve ops kv h store q ed k
             = (h', Inr \<lparr>full = map chunk_to_dict fc, versions = map chunk_to_dict vc\<rparr>)
           \<and> ranked (similarity ops q) k fidx fc
           \<and> ranked (similarity ops q) kv vidx vc"
proof -
  have f: "\<forall>c\<in>set fidx. \<exists>s. cosine_similarity ops q (embedding c) = Inr s"
    using assms(7) score_is_number_computed by blast
  have v: "\<forall>c\<in>set vidx. \<exists>s. cosine_similarity ops q (embedding c) = Inr s"
    using assms(7) score_is_number_computed by blast
  have fn: "\<forall>c\<in>set fidx. similarity ops q c \<noteq> NaN"
    using assms(7) score_is_number_similarity by blast
  have vn: "\<forall>c\<in>set vidx. similarity ops q c \<noteq> NaN"
    using assms(7) score_is_number_similarity by blast
  show ?thesis
    using retrieve_value [OF assms(3-6) f v, of kv ed k]
      ranked_slice [OF assms(1) fn] ranked_slice [OF assms(2) vn]
    by blast
qed

lemma example_scores:
  "cosine_similarity unrounded_ops [Finite 1, Finite 0] [Finite 0, Finite 1] = Inr (Finite 0)"
  "cosine_similarity unrounded_ops [Finite 1, Finite 0] [Finite 1, Finite 0] = Inr (Finite 1)"
  "cosine_similarity unrounded_ops [Finite 1, Finite 0] [Finite 2, Finite 0] = Inr (Finite 1)"
  "cosine_similarity unrounded_ops [Finite 1, Finite 0] [Finite 0, Finite 2] = Inr (Finite 0)"
  by (simp_all add: cosine_similarity_def unrounded_ops_def unrounded_sum_def math_sqrt_def py_truediv_def)

lemma example_scores_numbers:
  "\<forall>c\<in>set example_chunks \<union> set example_version_chunks.
     score_is_number unrounded_ops [Finite 1, Finite 0] c"
  by (simp add: example_chunks_def example_version_chunks_def score_is_number_def example_scores)


theorem retrieve_ranked_witness:
  "(0::int) \<le> 2 \<and> (0::int) \<le> 1
   \<and> full_index example_store < length example_heap
   \<and> example_heap ! full_index example_store = Chunk_list example_chunks
   \<and> versions_index example_store < length example_heap
   \<and> example_heap ! versions_index example_store = Chunk_list example_version_chunks
   \<and> list_all (score_is_number unrounded_ops [Finite 1, Finite 0])
         (example_chunks @ example_version_chunks)
   \<and> (\<exists>h' fc vc.
         retrieve unrounded_ops 1 example_heap example_store [Finite 1, Finite 0] ''Suite'' 2
           = (h', Inr \<lparr>full = map chunk_to_dict fc, versions = map chunk_to_dict vc\<rparr>)
         \<and> ranked (similarity unrounded_ops [Finite 1, Finite 0]) 2 example_chunks fc
         \<and> ranked (similarity unrounded_ops [Finite 1, Finite 0]) 1 example_version_chunks vc)"
proof -
  have 1: "full_index example_store < length example_heap"
    and 2: "example_heap ! full_index example_store = Chunk_list example_chunks"
    and 3: "versions_index example_store < length example_heap"
    and 4: "example_heap ! versions_index example_store = Chunk_list example_version_chunks"
    by (simp_all add: example_store_def example_heap_def)
  have k: "(0::int) \<le> 2" and kv: "(0::int) \<le> 1" by simp_all
  have n: "list_all (score_is_number unrounded_ops [Finite 1, Finite 0])
             (example_chunks @ example_version_chunks)"
    using example_scores_numbers by (simp add: list_all_iff)
  show ?thesis
    using retrieve_ranked [OF k kv 1 2 3 4 example_scores_numbers, of "''Suite''"]
      k kv 1 2 3 4 n
    by blast
qed

text \<open>
  Claim C2 as stated fails for a negative \<open>k\<close>: the slice \<^verbatim>\<open>scored[:-1]\<close> is all but the
  last entry, so \<open>k = -1\<close> returns two of the three example chunks, which is more than
  \<open>k\<close>.
\<close>

theorem retrieve_negative_k_counterexample:
  "snd (retrieve unrounded_ops 1 example_heap example_store [Finite 1, Finite 0] ''Suite'' (- 1)) =
      Inr \<lparr>full = [chunk_to_dict (example_chunks ! 1), chunk_to_dict (example_chunks ! 2)],
           versions = [chunk_to_dict (example_version_chunks ! 1)]\<rparr>
   \<and> \<not> int (length [chunk_to_dict (example_chunks ! 1), chunk_to_dict (example_chunks ! 2)]) \<le> - 1"
  by (simp add: retrieve_def example_store_def example_heap_def top_matches_def chunks_at_def example_scores
      example_chunks_def example_version_chunks_def sort_reverse_def slice_to_def
      descending_key_def Let_def)






section \<open>Properties of the stage handlers\<close>

text \<open>
  Claim C4. When an answer is already stored and no chunks were retrieved, the stored
  answer after \<^verbatim>\<open>generate_full_answer\<close> is the supplied answer, whether or not a client is
  configured and for every outcome of the generation: any JSON answer with any list of
  steps, or an exception.
\<close>

theorem generate_full_answer_keeps_supplied_answer:
  assumes "full_answer st = Some a" and "a \<noteq> []" and "selected_chunks st = []"
  shows "\<exists>st'. generate_full_answer e r st = Inr st' \<and> full_answer st' = Some a"
  using assms
  by (cases r) (auto simp: generate_full_answer_def truthy_def Let_def)

theorem generate_full_answer_keeps_supplied_answer_witness:
  "full_answer example_session = Some ''Open the browser. Drag Reverb onto the track.''
   \<and> ''Open the browser. Drag Reverb onto the track.'' \<noteq> []
   \<and> selected_chunks example_session = []
   \<and> (\<exists>st'. generate_full_answer example_env
                (Returned \<lparr>json_answer_explanation = Some ''Two steps'',
                           json_steps = Some [\<lparr>step_text = Some ''Open the browser. Drag Reverb'',
                                               requires_click = None, button_coords = None\<rparr>]\<rparr>)
                example_session = Inr st'
              \<and> full_answer st' = Some ''Open the browser. Drag Reverb onto the track.'')"
  using generate_full_answer_keeps_supplied_answer [of example_session "''Open the browser. Drag Reverb onto the track.''" example_env
      "Returned \<lparr>json_answer_explanation = Some ''Two steps'',
                           json_steps = Some [\<lparr>step_text = Some ''Open the browser. Drag Reverb'',
                                               requires_click = None, button_coords = None\<rparr>]\<rparr>"]
  by (simp add: example_session_def new_session_def)

lemma str_nat_nonempty: "str_nat n \<noteq> []"
  by (subst str_nat.simps) simp

lemma str_int_nonempty: "str_int i \<noteq> []"
  by (simp add: str_int_def str_nat_nonempty)

lemma step_header_nonempty: "step_header n m \<noteq> []"
  by (simp add: step_header_def)

lemma join_first_nonempty: "p \<noteq> [] \<Longrightarrow> join sep (p # ps) \<noteq> []"
  by (cases ps) simp_all

lemma completion_question_nonempty: "completion_question l \<noteq> []"
  by (cases l) (simp_all add: completion_question_def)

lemma chat_response_text_nonempty: "chat_response_text st \<noteq> []"
  by (simp add: chat_response_text_def truthy_def or_empty_def split: option.splits)

text \<open>
  Claim C8, amended. \<^verbatim>\<open>wait_for_version_choice\<close> when it waits, \<^verbatim>\<open>wait_user_action\<close> and
  \<^verbatim>\<open>final_confirmation\<close> set a non-empty response text. \<^verbatim>\<open>wait_for_user_step_choice\<close>
  when it waits sets the answer followed by the question if steps were extracted, which is
  not empty, and the stored answer alone otherwise, which may be empty or absent; the text
  \<^verbatim>\<open>/chat\<close> then answers with is never empty.
\<close>

theorem awaiting_handlers_response_text:
  "(\<not> truthy (user_choice st) \<longrightarrow>
      action_required (wait_for_version_choice st) = Some Wait_version_choice
      \<and> truthy (response_text (wait_for_version_choice st)))
   \<and> (\<forall>st'. wait_user_action st = Inr st' \<longrightarrow>
         action_required st' = Some Wait_user_action \<and> truthy (response_text st'))
   \<and> (\<forall>st'. final_confirmation e st = Inr st' \<longrightarrow>
         action_required st' = Some Wait_task_completion_choice \<and> truthy (response_text st'))
   \<and> (\<not> truthy (user_choice st) \<longrightarrow>
         action_required (wait_for_user_step_choice st) = Some Wait_step_choice
         \<and> response_text (wait_for_user_step_choice st)
             = (if steps st \<noteq> []
                then Some (fmt (full_answer st) @ newline @ newline
                           @ ''Would you like me to show this step-by-step? (yes/no)'')
                else full_answer st)
         \<and> (steps st \<noteq> [] \<longrightarrow> truthy (response_text (wait_for_user_step_choice st))))
   \<and> chat_response_text st \<noteq> []"
proof (intro conjI allI impI)
  assume "\<not> truthy (user_choice st)"
  then show "action_required (wait_for_version_choice st) = Some Wait_version_choice"
    and "truthy (response_text (wait_for_version_choice st))"
    by (simp_all add: wait_for_version_choice_def truthy_def warning_sign_def)
next
  fix st' assume "wait_user_action st = Inr st'"
  then show "action_required st' = Some Wait_user_action" and "truthy (response_text st')"
    by (auto simp: wait_user_action_def Let_def truthy_def step_header_nonempty
        join_first_nonempty split: if_splits sum.splits)
next
  fix st' assume "final_confirmation e st = Inr st'"
  then show "action_required st' = Some Wait_task_completion_choice"
    and "truthy (response_text st')"
    by (auto simp: final_confirmation_def Let_def truthy_def step_header_nonempty
        completion_question_nonempty split: if_splits sum.splits)
next
  assume w: "\<not> truthy (user_choice st)"
  then have c: "lower (or_empty (user_choice st)) = []"
    by (simp add: truthy_def or_empty_def lower_def split: option.splits)
  show "action_required (wait_for_user_step_choice st) = Some Wait_step_choice"
    by (simp add: wait_for_user_step_choice_def c)
  show "response_text (wait_for_user_step_choice st)
             = (if steps st \<noteq> []
                then Some (fmt (full_answer st) @ newline @ newline
                           @ ''Would you like me to show this step-by-step? (yes/no)'')
                else full_answer st)"
    by (simp add: wait_for_user_step_choice_def c)
  show "truthy (response_text (wait_for_user_step_choice st))" if "steps st \<noteq> []"
    using that by (simp add: wait_for_user_step_choice_def c truthy_def)
next
  show "chat_response_text st \<noteq> []" by (rule chat_response_text_nonempty)
qed

theorem awaiting_handlers_response_text_witness:
  "\<not> truthy (user_choice example_session)
   \<and> truthy (response_text (wait_for_version_choice example_session))
   \<and> (\<exists>st'. wait_user_action example_session = Inr st' \<and> truthy (response_text st'))
   \<and> (\<exists>st'. final_confirmation example_env example_session = Inr st'
              \<and> truthy (response_text st'))
   \<and> steps example_session \<noteq> []
   \<and> truthy (response_text (wait_for_user_step_choice example_session))"
  using awaiting_handlers_response_text [of example_session example_env]
  by (simp add: example_session_def new_session_def example_steps_def truthy_def
      wait_user_action_def final_confirmation_def getitem_def position_def)

text \<open>
  Claim C8 as stated fails: a generation that returns a JSON object without explanation
  and steps stores the empty answer, and \<^verbatim>\<open>wait_for_user_step_choice\<close> then waits for the
  user with the empty response text.
\<close>

theorem step_choice_empty_response_counterexample:
  "generate_full_answer example_env (answer_reply example_ext) example_retrieved
     = Inr (example_retrieved\<lparr>full_answer := Some [], steps := []\<rparr>)
   \<and> action_required
         (wait_for_user_step_choice (example_retrieved\<lparr>full_answer := Some [], steps := []\<rparr>))
       = Some Wait_step_choice
   \<and> response_text
         (wait_for_user_step_choice (example_retrieved\<lparr>full_answer := Some [], steps := []\<rparr>))
       = Some []"
  by (simp add: generate_full_answer_def wait_for_user_step_choice_def example_retrieved_def
      new_session_def example_env_def example_ext_def example_chunks_def chunk_to_dict_def
      truthy_def get_default_def or_empty_def lower_def)

text \<open>
  Claim C6 fails on the code. The reply ``show me the steps'' is not a negative, and the
  handler clears the required action for it, as its comment says, so that the workflow
  continues to \<^verbatim>\<open>step_agent\<close>; the edge after the handler then ends the workflow, since the
  reply does not contain ``yes''. No closing message is set.
\<close>

theorem step_choice_show_ends_workflow:
  "\<not> str_contains ''no'' (lower ''show me the steps'')
   \<and> \<not> str_contains ''thanks'' (lower ''show me the steps'')
   \<and> \<not> str_contains ''thank you'' (lower ''show me the steps'')
   \<and> wait_for_user_step_choice (example_choice_session ''show me the steps'')
       = (example_choice_session ''show me the steps'')\<lparr>action_required := None\<rparr>
   \<and> next_node node_wait_step_choice
         (wait_for_user_step_choice (example_choice_session ''show me the steps''))
       = Inr node_END"
  by (simp add: wait_for_user_step_choice_def next_node_def should_continue_after_step_choice_def
      lower_def lower_char_def or_empty_def example_choice_session_def example_session_def
      new_session_def)

text \<open>
  The same for every reply: without ``yes'' in it the edge ends the workflow, and with
  ``yes'' in it the edge goes to \<^verbatim>\<open>step_agent\<close>, also when the handler took the reply for a
  negative and set the closing message.
\<close>

lemma step_choice_edge:
  "next_node node_wait_step_choice (wait_for_user_step_choice st)
     = Inr (if str_contains ''yes'' (lower (or_empty (user_choice st)))
            then node_step_agent else node_END)"
  by (simp add: next_node_def should_continue_after_step_choice_def
      wait_for_user_step_choice_def Let_def)

lemma step_choice_negative_with_yes:
  "response_text (wait_for_user_step_choice (example_choice_session ''yes, no problem''))
     = Some ''Okay, feel free to ask if you need help!''
   \<and> next_node node_wait_step_choice
         (wait_for_user_step_choice (example_choice_session ''yes, no problem''))
       = Inr node_step_agent"
  by (simp add: wait_for_user_step_choice_def next_node_def should_continue_after_step_choice_def
      lower_def lower_char_def or_empty_def example_choice_session_def example_session_def
      new_session_def)

lemma same_cursor_in_range:
  "same_cursor st st' \<Longrightarrow> cursor_in_range st \<Longrightarrow> cursor_in_range st'"
  by (simp add: same_cursor_def cursor_in_range_def)

lemma same_cursor_on_step:
  "same_cursor st st' \<Longrightarrow> cursor_on_step st \<Longrightarrow> cursor_on_step st'"
  by (simp add: same_cursor_def cursor_on_step_def)

lemma same_cursor_refl: "same_cursor st st"
  by (simp add: same_cursor_def)

lemma detect_user_intent_cursor: "same_cursor st (detect_user_intent e r st)"
  by (simp add: same_cursor_def detect_user_intent_def split: reply.splits)

lemma check_ableton_version_cursor:
  "check_ableton_version e r st = Inr st' \<Longrightarrow> same_cursor st st'"
  by (auto simp: same_cursor_def check_ableton_version_def Let_def
      split: if_splits sum.splits reply.splits)

lemma wait_for_version_choice_cursor: "same_cursor st (wait_for_version_choice st)"
  by (simp add: same_cursor_def wait_for_version_choice_def)

lemma retrieve_from_vectorstore_cursor:
  "retrieve_from_vectorstore e st = Inr st' \<Longrightarrow> same_cursor st st'"
  by (auto simp: same_cursor_def retrieve_from_vectorstore_def split: sum.splits)

lemma wait_for_user_step_choice_cursor: "same_cursor st (wait_for_user_step_choice st)"
  by (simp add: same_cursor_def wait_for_user_step_choice_def Let_def)

lemma detect_interaction_type_cursor:
  "detect_interaction_type e r st = Inr st' \<Longrightarrow> same_cursor st st'"
  by (auto simp: same_cursor_def detect_interaction_type_def Let_def
      split: if_splits sum.splits reply.splits)

lemma analyze_screenshot_for_button_cursor:
  "analyze_screenshot_for_button e r st = Inr st' \<Longrightarrow> same_cursor st st'"
  by (auto simp: same_cursor_def analyze_screenshot_for_button_def Let_def
      split: if_splits sum.splits)

lemma wait_user_action_cursor: "wait_user_action st = Inr st' \<Longrightarrow> same_cursor st st'"
  by (auto simp: same_cursor_def wait_user_action_def Let_def split: if_splits sum.splits)

lemma optional_validate_step_cursor:
  "optional_validate_step e r st = Inr st' \<Longrightarrow> same_cursor st st'"
  by (auto simp: same_cursor_def optional_validate_step_def optional_validate_step_traced_def
      Let_def split: if_splits sum.splits reply.splits option.splits)

lemma final_confirmation_cursor: "final_confirmation e st = Inr st' \<Longrightarrow> same_cursor st st'"
  by (auto simp: same_cursor_def final_confirmation_def Let_def split: if_splits sum.splits)

lemma next_step_or_finish_steps: "steps (next_step_or_finish st) = steps st"
  by (simp add: next_step_or_finish_def Let_def)

lemma next_step_or_finish_cursor:
  "current_step_index (next_step_or_finish st) = current_step_index st
   \<or> (current_step_index (next_step_or_finish st) = current_step_index st + 1
      \<and> current_step_index st + 1 < int (length (steps st)))"
  by (simp add: next_step_or_finish_def Let_def)

lemma step_agent_start_steps: "steps (step_agent_start st) = steps st"
  by (simp add: step_agent_start_def)

lemma step_agent_start_cursor:
  "current_step_index (step_agent_start st) = (if steps st = [] then current_step_index st else 0)"
  by (simp add: step_agent_start_def)

lemma run_node_cursor:
  assumes "n \<noteq> node_generate_answer" and "n \<noteq> node_fallback"
    and r: "run_node e x n st = Inr st'"
  shows "(cursor_in_range st \<longrightarrow> cursor_in_range st')
         \<and> (cursor_on_step st \<longrightarrow> cursor_on_step st')"
proof -
  consider "same_cursor st st'" | "n = node_next_step" | "n = node_step_agent"
    using assms
    by (cases n)
       (auto simp: run_node_def detect_user_intent_cursor check_ableton_version_cursor
          wait_for_version_choice_cursor retrieve_from_vectorstore_cursor
          wait_for_user_step_choice_cursor detect_interaction_type_cursor
          analyze_screenshot_for_button_cursor wait_user_action_cursor
          optional_validate_step_cursor final_confirmation_cursor same_cursor_refl)
  then show ?thesis
  proof cases
    case 1
    then show ?thesis using same_cursor_in_range same_cursor_on_step by blast
  next
    case 2
    then have "st' = next_step_or_finish st" using r by (simp add: run_node_def)
    then show ?thesis
      using next_step_or_finish_cursor [of st]
      by (auto simp: cursor_in_range_def cursor_on_step_def next_step_or_finish_steps)
  next
    case 3
    then have "st' = step_agent_start st" using r by (simp add: run_node_def)
    then show ?thesis
      by (auto simp: cursor_in_range_def cursor_on_step_def step_agent_start_steps
          step_agent_start_cursor)
  qed
qed

text \<open>
  Claim C1, amended. Every stage handler other than \<^verbatim>\<open>generate_full_answer\<close> and
  \<^verbatim>\<open>fallback_review_steps\<close> keeps the cursor within \<open>[0, len(steps)]\<close> if it was there,
  and keeps it on a step if it was on one; \<^verbatim>\<open>step_agent_start\<close> puts it on the first step
  of a non-empty list; \<^verbatim>\<open>next_step_or_finish\<close> moves it by one only to a position below
  \<open>len(steps)\<close> and leaves it otherwise, so that it never moves the cursor onto
  \<open>len(steps)\<close>.
\<close>

theorem handlers_keep_cursor:
  "(n \<noteq> node_generate_answer \<and> n \<noteq> node_fallback \<and> run_node e x n st = Inr st' \<longrightarrow>
      (cursor_in_range st \<longrightarrow> cursor_in_range st')
      \<and> (cursor_on_step st \<longrightarrow> cursor_on_step st'))
   \<and> (steps st \<noteq> [] \<longrightarrow>
        current_step_index (step_agent_start st) = 0 \<and> cursor_on_step (step_agent_start st))
   \<and> (current_step_index (next_step_or_finish st) = current_step_index st
        \<or> (current_step_index (next_step_or_finish st) = current_step_index st + 1
           \<and> current_step_index st + 1 < int (length (steps st))))"
  using run_node_cursor [of n e x st st'] next_step_or_finish_cursor [of st]
  by (simp add: cursor_on_step_def step_agent_start_steps step_agent_start_cursor)

theorem handlers_keep_cursor_witness:
  "node_next_step \<noteq> node_generate_answer \<and> node_next_step \<noteq> node_fallback
   \<and> run_node example_env example_ext node_next_step example_session
       = Inr (example_session\<lparr>current_step_index := 1\<rparr>)
   \<and> cursor_in_range example_session \<and> cursor_on_step example_session
   \<and> cursor_on_step (example_session\<lparr>current_step_index := 1\<rparr>)
   \<and> steps example_session \<noteq> []
   \<and> current_step_index (step_agent_start example_session) = 0"
  using handlers_keep_cursor [of node_next_step example_env example_ext example_session
      "example_session\<lparr>current_step_index := 1\<rparr>"]
  by (simp add: run_node_def next_step_or_finish_def example_session_def new_session_def
      example_steps_def cursor_in_range_def cursor_on_step_def)

text \<open>
  Claim C1 as stated fails: \<^verbatim>\<open>fallback_review_steps\<close> makes the first index the model
  flags the cursor without comparing it with the number of steps.
\<close>

theorem fallback_cursor_out_of_range_counterexample:
  "cursor_in_range example_session
   \<and> run_node example_env (example_ext\<lparr>review_reply := Returned (Some [5])\<rparr>) node_fallback
         example_session
       = Inr (example_session\<lparr>current_step_index := 5, mode := step_by_step,
                response_text := Some ''Let's start from step 6.''\<rparr>)
   \<and> \<not> cursor_in_range (example_session\<lparr>current_step_index := 5, mode := step_by_step,
                response_text := Some ''Let's start from step 6.''\<rparr>)"
  by (simp add: run_node_def fallback_review_steps_def example_session_def new_session_def
      example_steps_def example_env_def example_ext_def cursor_in_range_def get_default_def
      str_int_def str_nat.simps digit_char_def)

text \<open>
  \<^verbatim>\<open>generate_full_answer\<close> replaces the step list and leaves the cursor of the previous
  delivery.
\<close>

lemma generate_full_answer_stale_cursor:
  "cursor_in_range
     (example_session\<lparr>current_step_index := 1, full_answer := None,
        selected_chunks := [chunk_to_dict (example_chunks ! 1)]\<rparr>)
   \<and> run_node example_env example_ext node_generate_answer
         (example_session\<lparr>current_step_index := 1, full_answer := None,
            selected_chunks := [chunk_to_dict (example_chunks ! 1)]\<rparr>)
       = Inr (example_session\<lparr>current_step_index := 1, full_answer := Some [],
                selected_chunks := [chunk_to_dict (example_chunks ! 1)], steps := []\<rparr>)"
  by (simp add: run_node_def generate_full_answer_def example_session_def new_session_def
      example_steps_def example_env_def example_ext_def cursor_in_range_def get_default_def
      truthy_def example_chunks_def chunk_to_dict_def)

section \<open>Properties of the endpoints\<close>

lemma chat_loop_count:
  "chat_loop strm i result = Inr (res, n) \<Longrightarrow> n \<le> max (Suc i) max_iterations"
proof (induction strm i result rule: chat_loop.induct)
  case (1 strm iteration result)
  show ?case
  proof (cases "strm iteration")
    case (Yield step_v)
    show ?thesis
    proof (cases "action_required (consume_step result step_v) \<noteq> None
                  \<or> max_iterations \<le> iteration + 1")
      case True
      with Yield "1.prems" show ?thesis
        by (subst (asm) chat_loop.simps) (auto simp: Let_def)
    next
      case False
      with Yield "1.prems"
      have "chat_loop strm (iteration + 1) (consume_step result step_v) = Inr (res, n)"
        by (subst (asm) chat_loop.simps) (simp add: Let_def)
      with "1.IH" [OF Yield refl refl False] False show ?thesis by simp
    qed
  next
    case Stop
    with "1.prems" show ?thesis by (subst (asm) chat_loop.simps) auto
  next
    case (Throw err)
    with "1.prems" show ?thesis by (subst (asm) chat_loop.simps) auto
  qed
qed

text \<open>
  Up to the first stage that waits for the user, every edge leads to the end or to a node
  further along the path, and \<^verbatim>\<open>wait_user_action\<close> always requires an action.
\<close>

lemma wait_user_action_requires:
  "wait_user_action st = Inr st' \<Longrightarrow> action_required st' \<noteq> None"
  by (auto simp: wait_user_action_def Let_def split: if_splits sum.splits)

lemma early_edge:
  assumes "stage_rank n < 9" "next_node n st = Inr n'"
  shows "n' = node_END \<or> (stage_rank n < stage_rank n' \<and> stage_rank n' \<le> 9)"
  using assms
  by (cases n)
     (auto simp: next_node_def should_continue_after_intent_def
        should_continue_after_version_check_def should_continue_after_version_choice_def
        should_continue_after_step_choice_def should_continue_after_interaction_type_def
        Let_def split: if_splits sum.splits)

lemma graph_turn_count:
  "chat_loop (graph_stream e xs st0) i r = Inr (res, n) \<Longrightarrow> on_first_path e xs st0 i \<Longrightarrow> n \<le> 10"
proof (induction "graph_stream e xs st0" i r rule: chat_loop.induct)
  case (1 iteration result)
  let ?strm = "graph_stream e xs st0"
  show ?case
  proof (cases "?strm iteration")
    case Stop
    then have n: "n = iteration" using "1.prems"(1) by (subst (asm) chat_loop.simps) auto
    from Stop obtain st where "graph_at e xs st0 iteration = Inr (node_END, st)"
      by (auto simp: graph_stream_def split: sum.splits prod.splits if_splits)
    with "1.prems"(2) n show ?thesis by (simp add: on_first_path_def)
  next
    case (Throw err)
    with "1.prems"(1) show ?thesis by (subst (asm) chat_loop.simps) auto
  next
    case (Yield step_v)
    then obtain nd st nd' st' where
      g: "graph_at e xs st0 iteration = Inr (nd, st)" "nd \<noteq> node_END"
         "graph_at e xs st0 (Suc iteration) = Inr (nd', st')" "step_v = [(nd, st')]"
      by (auto simp: graph_stream_def split: sum.splits prod.splits if_splits)
    from g(1,3) have run: "run_node e (xs iteration) nd st = Inr st'" and nxt: "next_node nd st' = Inr nd'"
      by (auto split: sum.splits)
    have res': "consume_step result step_v = st'" using g(4) by simp
    from "1.prems"(2) g(1,2) have rk: "iteration \<le> stage_rank nd" "stage_rank nd \<le> 9"
      by (simp_all add: on_first_path_def)
    show ?thesis
    proof (cases "action_required st' \<noteq> None \<or> max_iterations \<le> iteration + 1")
      case True
      with Yield "1.prems"(1) res' have "n = iteration + 1"
        by (subst (asm) chat_loop.simps) (auto simp: Let_def)
      with rk show ?thesis by simp
    next
      case False
      with Yield "1.prems"(1) res'
      have rec: "chat_loop ?strm (iteration + 1) st' = Inr (res, n)"
        by (subst (asm) chat_loop.simps) (simp add: Let_def)
      have "nd \<noteq> node_wait_action"
      proof
        assume "nd = node_wait_action"
        with run have "wait_user_action st = Inr st'" by (simp add: run_node_def)
        from wait_user_action_requires [OF this] False show False by simp
      qed
      with rk(2) have lt: "stage_rank nd < 9" by (cases nd) simp_all
      from early_edge [OF lt nxt] rk(1) lt
      have "on_first_path e xs st0 (iteration + 1)"
        using g(3) by (auto simp: on_first_path_def simp del: graph_at.simps)
      from "1.hyps" [OF Yield refl refl _ _ this] False res' rec show ?thesis by simp
    qed
  qed
qed

text \<open>
  Claim C9. Every turn ends: the loop of \<^verbatim>\<open>chat\<close> over the stream of the stage graph ends
  with the exception of a handler, which \<^verbatim>\<open>chat\<close> answers with the status 500, or with a
  response after at most 10 stage executions, below the cap \<open>max_iterations = 20\<close>. The cap
  bounds the loop over every stream (\<open>chat_loop_count\<close>), and the stream of the graph never
  reaches it: every path from the entry point arrives within 10 stages at the end or at
  \<^verbatim>\<open>wait_user_action\<close>, where the loop is left. So no turn is cut off by the cap, and the
  response is the response text of the last stage, else its answer, else
  ``No response generated.'', which is never empty.
\<close>

theorem chat_turn_bounded:
  "(\<exists>err. chat_run (graph_stream e xs initial_state) initial_state = Inl err)
   \<or> (\<exists>txt result n.
         chat_run (graph_stream e xs initial_state) initial_state = Inr (txt, result, n)
         \<and> n \<le> 10 \<and> n < max_iterations
         \<and> txt = chat_response_text result \<and> txt \<noteq> [])"
proof (cases "chat_loop (graph_stream e xs initial_state) 0 initial_state")
  case (Inl err)
  then show ?thesis by (simp add: chat_run_def)
next
  case (Inr p)
  obtain result n where p: "p = (result, n)" by (cases p)
  have "on_first_path e xs initial_state 0" by (simp add: on_first_path_def)
  from graph_turn_count [OF Inr [unfolded p] this] have "n \<le> 10" .
  with Inr p show ?thesis
    by (simp add: chat_run_def chat_response_text_nonempty max_iterations_def)
qed

theorem chat_turn_bounded_witness:
  "chat_run (graph_stream example_env example_turn example_question) example_question
     = Inr (''Open the browser. Drag Reverb onto the track.'' @ newline @ newline
              @ ''Would you like me to show this step-by-step? (yes/no)'',
            example_question\<lparr>intent := Some ableton_question, allowed := Some True,
              selected_chunks := map chunk_to_dict [example_chunks ! 1, example_chunks ! 2, example_chunks ! 0],
              full_answer := Some ''Open the browser. Drag Reverb onto the track.'',
              steps := example_steps, mode := simple,
              action_required := Some Wait_step_choice,
              response_text := Some (''Open the browser. Drag Reverb onto the track.'' @ newline
                @ newline @ ''Would you like me to show this step-by-step? (yes/no)'')\<rparr>,
            5)
   \<and> (5::nat) \<le> 10 \<and> (5::nat) < max_iterations"
  using chat_turn_bounded [of example_env example_turn example_question]
  by (simp add: chat_run_def chat_loop.simps graph_stream_def chat_response_text_def
      max_iterations_def wait_for_user_step_choice_def should_continue_after_step_choice_def fmt_def
      eval_nat_numeral run_node_def next_node_def example_env_def example_turn_def
      example_ext_def example_question_def new_session_def detect_user_intent_def
      check_ableton_version_def retrieve_from_vectorstore_def generate_full_answer_def
      should_continue_after_intent_def should_continue_after_version_check_def
      truthy_def or_empty_def lower_def lower_char_def get_default_def
      retrieve_def example_store_def example_heap_def top_matches_def chunks_at_def example_scores
      example_chunks_def example_version_chunks_def sort_reverse_def slice_to_def
      descending_key_def Let_def chunk_to_dict_def example_steps_def complete_generated_step_def)

lemma position_in_range:
  "0 \<le> i \<Longrightarrow> i < int (length xs) \<Longrightarrow> position xs i = Inr (nat i)"
  by (simp add: position_def Let_def)

lemma getitem_in_range:
  "0 \<le> i \<Longrightarrow> i < int (length xs) \<Longrightarrow> getitem xs i = Inr (xs ! nat i)"
  by (simp add: getitem_def position_in_range)

lemma final_confirmation_on_step:
  assumes "cursor_on_step st"
  shows "\<exists>st'. final_confirmation e st = Inr st' \<and> same_cursor st st'
               \<and> action_required st' = Some Wait_task_completion_choice"
  using assms
  by (auto simp: final_confirmation_def cursor_on_step_def Let_def getitem_in_range
      same_cursor_def)

lemma detect_interaction_type_on_step:
  assumes "cursor_on_step st"
  shows "\<exists>st'. detect_interaction_type e r st = Inr st' \<and> same_cursor st st'"
  using assms
  by (cases r)
     (auto simp: detect_interaction_type_def cursor_on_step_def Let_def position_in_range
        same_cursor_def)

lemma next_step_or_finish_below_last:
  "cursor_on_step st \<Longrightarrow> current_step_index st < int (length (steps st)) - 1 \<Longrightarrow>
     next_step_or_finish st = st\<lparr>current_step_index := current_step_index st + 1\<rparr>"
  by (auto simp: next_step_or_finish_def Let_def cursor_on_step_def)

lemma next_step_or_finish_at_last:
  "current_step_index st = int (length (steps st)) - 1 \<Longrightarrow>
     next_step_or_finish st = st\<lparr>action_required := Some Wait_task_completion_choice\<rparr>"
  by (auto simp: next_step_or_finish_def Let_def)

lemma present_next_advanced:
  assumes "cursor_on_step result" and "current_step_index result \<noteq> i"
    and "length stps = length (steps result)"
  shows "\<exists>st' resp. present_next e x stps i result = (st', Inr resp)
           \<and> current_step_index st' = current_step_index result
           \<and> resp_step_index resp = current_step_index result"
proof (cases "current_step_index result = int (length stps) - 1")
  case True
  from final_confirmation_on_step [OF assms(1), of e]
  obtain st' where "final_confirmation e result = Inr st'" "same_cursor result st'" by blast
  with True assms show ?thesis
    by (simp add: present_next_def Let_def same_cursor_def)
next
  case False
  from detect_interaction_type_on_step [OF assms(1), of e "interaction_reply x"]
  obtain st' where "detect_interaction_type e (interaction_reply x) result = Inr st'"
    "same_cursor result st'" by blast
  with False assms show ?thesis
    by (simp add: present_next_def Let_def same_cursor_def cursor_on_step_def)
qed

lemma step_session_fields:
  "steps (step_session st request) = steps st"
  "current_step_index (step_session st request) = current_step_index st"
  "action_required (step_session st request) = action_required st"
  "full_answer (step_session st request) = full_answer st"
  by (simp_all add: step_session_def)

lemma step_state_fields:
  "steps (step_state st request) = steps st"
  "current_step_index (step_state st request) = current_step_index st"
  "action_required (step_state st request) = action_required st"
  "full_answer (step_state st request) = full_answer st"
  by (simp_all add: step_state_def)

lemma step_result:
  assumes "sessions (req_session_id request) = Some st"
    and "cursor_on_step st"
    and "\<not> str_contains ''cancel'' (lower (user_action request))"
    and "fst (step_validate e x request (step_state (step_session st request) request))
           = Inr state'"
  shows "step e x sessions request =
           (sessions(req_session_id request \<mapsto>
                       fst (step_answer e x request (steps st) (current_step_index st) state')),
            snd (step_answer e x request (steps st) (current_step_index st) state'),
            snd (step_validate e x request (step_state (step_session st request) request)))"
  using assms
  by (simp add: step_def Let_def cursor_on_step_def getitem_in_range step_session_fields)

lemma validate_skipped:
  "str_contains ''skip'' (lower (or_empty (user_choice st))) \<Longrightarrow>
     snd (optional_validate_step_traced e v st) = False"
  by (simp add: optional_validate_step_traced_def Let_def split: sum.splits)

text \<open>
  Claim C5, amended. For a session that waits for a user action on step \<open>i\<close>, a decision
  that contains ``skip'' and does not contain ``cancel'' is routed to \<^verbatim>\<open>next_step\<close>, and
  step validation does not reach its vision call, neither in the graph nor in \<^verbatim>\<open>/step\<close>.
  Below the last step \<^verbatim>\<open>next_step_or_finish\<close> and \<^verbatim>\<open>/step\<close> move the cursor to \<open>i + 1\<close>.
  On the last step \<^verbatim>\<open>next_step_or_finish\<close> leaves the cursor and requires the completion
  choice, and \<^verbatim>\<open>/step\<close> presents the completion question when the decision contains
  none of its yes and no keywords.
\<close>

theorem skip_advances_without_validation:
  assumes sess: "sessions (req_session_id request) = Some st"
    and waiting: "action_required st = Some Wait_user_action"
    and on: "cursor_on_step st"
    and skip: "str_contains ''skip'' (lower (user_action request))"
    and nocancel: "\<not> str_contains ''cancel'' (lower (user_action request))"
  shows "should_continue_after_user_action (st\<lparr>user_choice := Some (user_action request)\<rparr>)
           = node_next_step
         \<and> snd (optional_validate_step_traced e v (st\<lparr>user_choice := Some (user_action request)\<rparr>))
             = False
         \<and> (current_step_index st < int (length (steps st)) - 1 \<longrightarrow>
              next_step_or_finish st = st\<lparr>current_step_index := current_step_index st + 1\<rparr>)
         \<and> (current_step_index st = int (length (steps st)) - 1 \<longrightarrow>
              next_step_or_finish st = st\<lparr>action_required := Some Wait_task_completion_choice\<rparr>)
         \<and> (\<exists>st' resp.
              step e x sessions request = (sessions(req_session_id request \<mapsto> st'), resp, False)
              \<and> (current_step_index st < int (length (steps st)) - 1 \<longrightarrow>
                   current_step_index st' = current_step_index st + 1
                   \<and> (\<exists>r. resp = Inr r \<and> resp_step_index r = current_step_index st + 1))
              \<and> (current_step_index st = int (length (steps st)) - 1
                   \<and> \<not> any_in yes_keywords (lower (user_action request))
                   \<and> \<not> any_in no_keywords (lower (user_action request)) \<longrightarrow>
                   current_step_index st' = current_step_index st
                   \<and> action_required st' = Some Wait_task_completion_choice
                   \<and> (\<exists>r. resp = Inr r
                          \<and> resp_action_required r = Some Wait_task_completion_choice)))"
proof (intro conjI)
  show "should_continue_after_user_action (st\<lparr>user_choice := Some (user_action request)\<rparr>)
           = node_next_step"
    using skip nocancel by (simp add: should_continue_after_user_action_def or_empty_def)
  show "snd (optional_validate_step_traced e v (st\<lparr>user_choice := Some (user_action request)\<rparr>))
             = False"
    using skip by (intro validate_skipped) (simp add: or_empty_def)
  show "current_step_index st < int (length (steps st)) - 1 \<longrightarrow>
              next_step_or_finish st = st\<lparr>current_step_index := current_step_index st + 1\<rparr>"
    using on by (simp add: next_step_or_finish_below_last)
  show "current_step_index st = int (length (steps st)) - 1 \<longrightarrow>
              next_step_or_finish st = st\<lparr>action_required := Some Wait_task_completion_choice\<rparr>"
    by (simp add: next_step_or_finish_at_last)
  define state where "state = step_state (step_session st request) request"
  define answer where
    "answer = step_answer e x request (steps st) (current_step_index st) state"
  have val: "step_validate e x request state = (Inr state, False)"
    using skip by (simp add: step_validate_def)
  have u: "step e x sessions request
             = (sessions(req_session_id request \<mapsto> fst answer), snd answer, False)"
    using step_result [of sessions request st e x state] sess on nocancel val
    by (simp add: state_def answer_def)
  have st_on: "cursor_on_step state" and st_idx: "current_step_index state = current_step_index st"
    and st_steps: "steps state = steps st" and st_act: "action_required state = Some Wait_user_action"
    using on waiting
    by (simp_all add: state_def cursor_on_step_def step_state_fields step_session_fields)
  have below: "current_step_index (fst answer) = current_step_index st + 1
               \<and> (\<exists>r. snd answer = Inr r \<and> resp_step_index r = current_step_index st + 1)"
    if b: "current_step_index st < int (length (steps st)) - 1"
  proof -
    let ?result = "state\<lparr>current_step_index := current_step_index st + 1\<rparr>"
    have r: "next_step_or_finish state = ?result"
      using next_step_or_finish_below_last [OF st_on] b by (simp add: st_idx st_steps)
    then have a: "answer = present_next e x (steps st) (current_step_index st) ?result"
      by (simp add: answer_def step_answer_def Let_def st_act)
    have "cursor_on_step ?result" using b on by (simp add: cursor_on_step_def st_steps)
    moreover have "current_step_index ?result \<noteq> current_step_index st" by simp
    moreover have "length (steps st) = length (steps ?result)" by (simp add: st_steps)
    ultimately obtain st' resp where
      "present_next e x (steps st) (current_step_index st) ?result = (st', Inr resp)"
      "current_step_index st' = current_step_index ?result"
      "resp_step_index resp = current_step_index ?result"
      using present_next_advanced by blast
    then show ?thesis by (simp add: a)
  qed
  have last: "current_step_index (fst answer) = current_step_index st
              \<and> action_required (fst answer) = Some Wait_task_completion_choice
              \<and> (\<exists>r. snd answer = Inr r
                     \<and> resp_action_required r = Some Wait_task_completion_choice)"
    if l: "current_step_index st = int (length (steps st)) - 1"
      and ny: "\<not> any_in yes_keywords (lower (user_action request))"
      and nn: "\<not> any_in no_keywords (lower (user_action request))"
  proof -
    let ?result = "state\<lparr>action_required := Some Wait_task_completion_choice\<rparr>"
    have r: "next_step_or_finish state = ?result"
      using next_step_or_finish_at_last [of state] l by (simp add: st_idx st_steps)
    then have a: "answer = completion_choice e x request (steps st) ?result"
      by (simp add: answer_def step_answer_def Let_def)
    show ?thesis using ny nn by (simp add: a completion_choice_def Let_def st_idx)
  qed
  show "\<exists>st' resp.
              step e x sessions request = (sessions(req_session_id request \<mapsto> st'), resp, False)
              \<and> (current_step_index st < int (length (steps st)) - 1 \<longrightarrow>
                   current_step_index st' = current_step_index st + 1
                   \<and> (\<exists>r. resp = Inr r \<and> resp_step_index r = current_step_index st + 1))
              \<and> (current_step_index st = int (length (steps st)) - 1
                   \<and> \<not> any_in yes_keywords (lower (user_action request))
                   \<and> \<not> any_in no_keywords (lower (user_action request)) \<longrightarrow>
                   current_step_index st' = current_step_index st
                   \<and> action_required st' = Some Wait_task_completion_choice
                   \<and> (\<exists>r. resp = Inr r
                          \<and> resp_action_required r = Some Wait_task_completion_choice))"
    using u below last by blast
qed

theorem skip_advances_without_validation_witness:
  "[''s1'' \<mapsto> example_session] ''s1'' = Some example_session
   \<and> action_required example_session = Some Wait_user_action
   \<and> cursor_on_step example_session
   \<and> str_contains ''skip'' (lower ''skip'')
   \<and> \<not> str_contains ''cancel'' (lower ''skip'')
   \<and> current_step_index example_session < int (length (steps example_session)) - 1
   \<and> should_continue_after_user_action (example_session\<lparr>user_choice := Some ''skip''\<rparr>)
       = node_next_step
   \<and> next_step_or_finish example_session
       = example_session\<lparr>current_step_index := current_step_index example_session + 1\<rparr>
   \<and> (\<exists>st' resp.
         step example_env example_ext [''s1'' \<mapsto> example_session]
           \<lparr>req_session_id = ''s1'', user_action = ''skip'', req_screenshot_url = None\<rparr>
           = ([''s1'' \<mapsto> st'], resp, False)
         \<and> current_step_index st' = current_step_index example_session + 1)"
proof -
  let ?request = "\<lparr>req_session_id = ''s1'', user_action = ''skip'', req_screenshot_url = None\<rparr>"
  have h1: "[''s1'' \<mapsto> example_session] (req_session_id ?request) = Some example_session"
    by simp
  have h2: "action_required example_session = Some Wait_user_action"
    by (simp add: example_session_def)
  have h3: "cursor_on_step example_session"
    by (simp add: cursor_on_step_def example_session_def example_steps_def)
  have h4: "str_contains ''skip'' (lower (user_action ?request))"
    by (simp add: lower_def lower_char_def)
  have h5: "\<not> str_contains ''cancel'' (lower (user_action ?request))"
    by (simp add: lower_def lower_char_def)
  have h6: "current_step_index example_session < int (length (steps example_session)) - 1"
    by (simp add: example_session_def example_steps_def)
  note t = skip_advances_without_validation
      [of "[''s1'' \<mapsto> example_session]" ?request example_session example_env
          "validate_reply example_ext" example_ext]
  from t h1 h2 h3 h4 h5
  have c: "should_continue_after_user_action
             (example_session\<lparr>user_choice := Some (user_action ?request)\<rparr>) = node_next_step"
    and n: "current_step_index example_session < int (length (steps example_session)) - 1 \<longrightarrow>
              next_step_or_finish example_session
                = example_session\<lparr>current_step_index := current_step_index example_session + 1\<rparr>"
    and s: "\<exists>st' resp.
              step example_env example_ext [''s1'' \<mapsto> example_session] ?request
                = ([''s1'' \<mapsto> example_session](req_session_id ?request \<mapsto> st'), resp, False)
              \<and> (current_step_index example_session < int (length (steps example_session)) - 1 \<longrightarrow>
                   current_step_index st' = current_step_index example_session + 1
                   \<and> (\<exists>r. resp = Inr r
                          \<and> resp_step_index r = current_step_index example_session + 1))"
    by blast+
  from s h6 have s': "\<exists>st' resp.
         step example_env example_ext [''s1'' \<mapsto> example_session] ?request
           = ([''s1'' \<mapsto> st'], resp, False)
         \<and> current_step_index st' = current_step_index example_session + 1"
    by auto
  from h1 h2 h3 h4 h5 h6 c n s' show ?thesis by simp
qed

text \<open>
  Claim C5 as stated fails: ``cancel'' is looked for before ``skip'', in the edge after
  \<^verbatim>\<open>wait_action\<close> and in \<^verbatim>\<open>/step\<close>, so a decision with both words ends the delivery and
  leaves the cursor.
\<close>

theorem skip_with_cancel_counterexample:
  "str_contains ''skip'' (lower ''skip and cancel'')
   \<and> should_continue_after_user_action (example_session\<lparr>user_choice := Some ''skip and cancel''\<rparr>)
       = node_END
   \<and> step example_env example_ext [''s1'' \<mapsto> example_session]
         \<lparr>req_session_id = ''s1'', user_action = ''skip and cancel'', req_screenshot_url = None\<rparr>
       = ([''s1'' \<mapsto> example_session\<lparr>user_choice := Some ''skip and cancel''\<rparr>],
          Inr \<lparr>resp_step_text = ''Task cancelled.'', resp_step_index = 0, resp_total_steps = 2,
               resp_requires_click = False, resp_button_coords = None,
               resp_action_required = None\<rparr>,
          False)
   \<and> current_step_index (example_session\<lparr>user_choice := Some ''skip and cancel''\<rparr>) = 0"
  by (simp add: step_def step_session_def Let_def should_continue_after_user_action_def
      example_session_def
      new_session_def example_steps_def getitem_def position_def lower_def lower_char_def
      truthy_def or_empty_def)

text \<open>The request ``skip'' on the first of two steps, evaluated.\<close>

lemma step_skip_example:
  "step example_env example_ext [''s1'' \<mapsto> example_session]
     \<lparr>req_session_id = ''s1'', user_action = ''skip'', req_screenshot_url = None\<rparr>
   = ([''s1'' \<mapsto> example_session\<lparr>user_choice := Some ''skip'', current_step_index := 1,
                     action_required := Some Wait_task_completion_choice,
                     response_text := Some (''Step 2 of 2:'' @ newline @ ''Drag Reverb onto the track''
                        @ newline @ newline @ ''Did you manage to solve the task?'')\<rparr>],
      Inr \<lparr>resp_step_text = ''Step 2 of 2:'' @ newline @ ''Drag Reverb onto the track''
                        @ newline @ newline @ ''Did you manage to solve the task?'',
           resp_step_index = 1, resp_total_steps = 2, resp_requires_click = False,
           resp_button_coords = None, resp_action_required = Some Wait_task_completion_choice\<rparr>,
      False)"
  by (simp add: step_def step_session_def step_state_def step_validate_def step_answer_def
      Let_def example_session_def new_session_def example_steps_def
      example_env_def example_ext_def getitem_def position_def lower_def lower_char_def
      next_step_or_finish_def present_next_def final_confirmation_def truthy_def or_empty_def
      step_header_def str_int_def str_nat.simps digit_char_def completion_question_def)

text \<open>
  Claim C7 fails on the code. ``not solved'' is one of the no keywords of \<^verbatim>\<open>step\<close>, but
  the yes keywords are looked for first and ``solved'' is one of them: for a session on
  its last step that is asked whether the task is solved, the decision ``not solved'' is
  answered with the message of success, the cursor stays on the last step, and the graph
  edge after \<^verbatim>\<open>final_confirmation\<close> ends the workflow as well.
\<close>

theorem not_solved_taken_for_yes:
  "any_in no_keywords (lower ''not solved'')
   \<and> should_continue_after_final_confirmation
         (example_confirm_session\<lparr>user_choice := Some ''not solved''\<rparr>) = node_END
   \<and> step example_env example_ext [''s1'' \<mapsto> example_confirm_session]
         \<lparr>req_session_id = ''s1'', user_action = ''not solved'', req_screenshot_url = None\<rparr>
       = ([''s1'' \<mapsto> example_confirm_session\<lparr>user_choice := Some ''not solved'',
                         mode := simple, action_required := None, response_text := None\<rparr>],
          Inr \<lparr>resp_step_text =
                 ''Great! Task completed. If you need help with anything else, just ask!'',
               resp_step_index = 1, resp_total_steps = 2, resp_requires_click = False,
               resp_button_coords = None, resp_action_required = None\<rparr>,
          False)
   \<and> current_step_index
         (example_confirm_session\<lparr>user_choice := Some ''not solved'',
            mode := simple, action_required := None, response_text := None\<rparr>) = 1"
  by (simp add: step_def step_session_def step_state_def step_validate_def step_answer_def
      Let_def should_continue_after_final_confirmation_def
      example_confirm_session_def example_session_def new_session_def example_steps_def
      example_env_def example_ext_def getitem_def position_def lower_def lower_char_def
      optional_validate_step_traced_def get_default_def
      next_step_or_finish_def completion_choice_def any_in_def yes_keywords_def no_keywords_def
      truthy_def or_empty_def completion_message_def)

lemma validate_frame:
  assumes "cursor_on_step st"
  shows "\<exists>st''. fst (optional_validate_step_traced e v st) = Inr st''
           \<and> steps st'' = steps st \<and> current_step_index st'' = current_step_index st
           \<and> full_answer st'' = full_answer st"
  using assms
  by (auto simp: optional_validate_step_traced_def Let_def cursor_on_step_def getitem_in_range
      split: reply.splits option.splits)

lemma map_step_text_update:
  "p < length xs \<Longrightarrow> step_text s = step_text (xs ! p) \<Longrightarrow>
     map step_text (xs[p := s]) = map step_text xs"
  by (simp add: map_update list_update_same_conv)

lemma detect_interaction_type_texts:
  assumes "detect_interaction_type e r st = Inr st'"
  shows "map step_text (steps st') = map step_text (steps st)
         \<and> full_answer st' = full_answer st
         \<and> current_step_index st' = current_step_index st"
proof (cases "steps st = [] \<or> int (length (steps st)) \<le> current_step_index st")
  case True
  with assms show ?thesis by (auto simp: detect_interaction_type_def Let_def)
next
  case False
  then obtain p where p: "position (steps st) (current_step_index st) = Inr p"
    using assms by (auto simp: detect_interaction_type_def Let_def split: sum.splits)
  then have "p < length (steps st)"
    by (auto simp: position_def Let_def split: if_splits)
  with assms False p show ?thesis
    by (cases r)
       (auto simp: detect_interaction_type_def Let_def map_step_text_update split: if_splits)
qed

text \<open>
  For a decision with a no keyword, without a yes keyword and without ``cancel'', the
  restart holds as claim C7 states it: the cursor is back at 0, the presented text is the
  header of step 1 and its text as extracted, and neither the step texts nor the answer
  change.
\<close>

lemma negative_confirmation_restarts:
  assumes sess: "sessions (req_session_id request) = Some st"
    and on: "cursor_on_step st"
    and last: "current_step_index st = int (length (steps st)) - 1"
    and nocancel: "\<not> str_contains ''cancel'' (lower (user_action request))"
    and no: "any_in no_keywords (lower (user_action request))"
    and notyes: "\<not> any_in yes_keywords (lower (user_action request))"
  shows "\<exists>st' r v.
           step e x sessions request = (sessions(req_session_id request \<mapsto> st'), Inr r, v)
           \<and> current_step_index st' = 0
           \<and> resp_step_index r = 0
           \<and> resp_step_text r
               = step_header 1 (length (steps st)) @ newline @ or_empty (step_text (steps st ! 0))
           \<and> resp_action_required r = Some Wait_user_action
           \<and> map step_text (steps st') = map step_text (steps st)
           \<and> full_answer st' = full_answer st"
proof -
  define state where "state = step_state (step_session st request) request"
  have state_on: "cursor_on_step state" and state_steps: "steps state = steps st"
    and state_idx: "current_step_index state = current_step_index st"
    and state_ans: "full_answer state = full_answer st"
    using on by (simp_all add: cursor_on_step_def state_def step_state_fields step_session_fields)
  have "\<exists>state'. fst (step_validate e x request state) = Inr state' \<and> steps state' = steps st
           \<and> current_step_index state' = current_step_index st
           \<and> full_answer state' = full_answer st"
  proof (cases "str_contains ''skip'' (lower (user_action request))")
    case True
    then show ?thesis by (simp add: step_validate_def state_steps state_idx state_ans)
  next
    case False
    then show ?thesis
      using validate_frame [OF state_on, of e "validate_reply x"]
      by (simp add: step_validate_def state_steps state_idx state_ans)
  qed
  then obtain state' where v: "fst (step_validate e x request state) = Inr state'"
    and v_steps: "steps state' = steps st"
    and v_idx: "current_step_index state' = current_step_index st"
    and v_ans: "full_answer state' = full_answer st"
    by blast
  let ?result = "state'\<lparr>action_required := Some Wait_task_completion_choice\<rparr>"
  have result: "next_step_or_finish state' = ?result"
    using next_step_or_finish_at_last [of state'] last by (simp add: v_steps v_idx)
  let ?session1 = "?result\<lparr>current_step_index := 0, action_required := Some Wait_user_action\<rparr>"
  have nonempty: "steps st \<noteq> []" using on by (auto simp: cursor_on_step_def)
  have s1_on: "cursor_on_step (?session1\<lparr>steps := steps st, current_step_index := 0\<rparr>)"
    using nonempty by (simp add: cursor_on_step_def)
  obtain result' where d: "detect_interaction_type e (interaction_reply x)
                             (?session1\<lparr>steps := steps st, current_step_index := 0\<rparr>) = Inr result'"
    using detect_interaction_type_on_step [OF s1_on] by blast
  note dt = detect_interaction_type_texts [OF d]
  have g0: "getitem (steps st) 0 = Inr (steps st ! 0)"
    using nonempty getitem_in_range [of 0 "steps st"] by simp
  let ?resp = "\<lparr>resp_step_text = step_header 1 (length (steps st)) @ newline
                                   @ or_empty (step_text (steps st ! 0)),
                resp_step_index = 0, resp_total_steps = length (steps st),
                resp_requires_click = get_default (requires_click (steps result' ! 0)) False,
                resp_button_coords = button_coords (steps result' ! 0),
                resp_action_required = Some Wait_user_action\<rparr>"
  have cc: "completion_choice e x request (steps st) ?result = (result', Inr ?resp)"
    using no notyes d by (simp add: completion_choice_def Let_def g0)
  have a: "step_answer e x request (steps st) (current_step_index st) state'
             = (result', Inr ?resp)"
    by (simp add: step_answer_def Let_def result cc)
  have u: "step e x sessions request
             = (sessions(req_session_id request \<mapsto> result'), Inr ?resp,
                snd (step_validate e x request state))"
    using step_result [of sessions request st e x state'] sess on nocancel v
    by (simp add: state_def a)
  have "step e x sessions request
          = (sessions(req_session_id request \<mapsto> result'), Inr ?resp,
             snd (step_validate e x request state))
        \<and> current_step_index result' = 0
        \<and> resp_step_index ?resp = 0
        \<and> resp_step_text ?resp
            = step_header 1 (length (steps st)) @ newline @ or_empty (step_text (steps st ! 0))
        \<and> resp_action_required ?resp = Some Wait_user_action
        \<and> map step_text (steps result') = map step_text (steps st)
        \<and> full_answer result' = full_answer st"
    using u dt by (simp add: v_ans)
  then show ?thesis by blast
qed

text \<open>The decision ``No'' on the last of the two example steps, evaluated.\<close>

lemma step_no_example:
  "step example_env example_ext [''s1'' \<mapsto> example_confirm_session]
         \<lparr>req_session_id = ''s1'', user_action = ''No'', req_screenshot_url = None\<rparr>
       = ([''s1'' \<mapsto> example_confirm_session\<lparr>user_choice := Some ''No'',
                         current_step_index := 0, action_required := Some Wait_user_action,
                         response_text := None\<rparr>],
          Inr \<lparr>resp_step_text = ''Step 1 of 2:'' @ newline @ ''Open the browser'',
               resp_step_index = 0, resp_total_steps = 2, resp_requires_click = False,
               resp_button_coords = None, resp_action_required = Some Wait_user_action\<rparr>,
          False)"
  by (simp add: step_def step_session_def step_state_def step_validate_def step_answer_def
      Let_def
      example_confirm_session_def example_session_def new_session_def example_steps_def
      example_env_def example_ext_def getitem_def position_def lower_def lower_char_def
      optional_validate_step_traced_def get_default_def detect_interaction_type_def
      next_step_or_finish_def completion_choice_def any_in_def yes_keywords_def no_keywords_def
      truthy_def or_empty_def step_header_def str_int_def str_nat.simps digit_char_def)

end
